theory Spec2Isabelle
  imports Complex_Main
begin

section \<open>Python values used by currencypp.py\<close>

text \<open>
  Exceptions are values. The constructors are the exception classes the plugin can meet:
  the built-in ones raised by attribute access on \<open>None\<close>, by \<open>float\<close>, by iterating
  \<open>None\<close>, by reading an unbound local and by a missing dictionary key; parsy's
  \<open>ParseError\<close>; the exchange module's \<open>CurrencyError\<close>; and any other subclass of
  \<open>Exception\<close> raised by a collaborator.
\<close>

datatype exn =
    AttributeError string
  | ValueError string
  | TypeError string
  | UnboundLocalError string
  | KeyError string
  | ParseError string
  | CurrencyError string
  | OtherException string

fun exn_str :: "exn \<Rightarrow> string" where
  "exn_str (AttributeError m) = m"
| "exn_str (ValueError m) = m"
| "exn_str (TypeError m) = m"
| "exn_str (UnboundLocalError m) = m"
| "exn_str (KeyError m) = m"
| "exn_str (ParseError m) = m"
| "exn_str (CurrencyError m) = m"
| "exn_str (OtherException m) = m"

fun is_ParseError :: "exn \<Rightarrow> bool" where
  "is_ParseError (ParseError m) = True"
| "is_ParseError e = False"

fun is_CurrencyError :: "exn \<Rightarrow> bool" where
  "is_CurrencyError (CurrencyError m) = True"
| "is_CurrencyError e = False"

text \<open>A Python float: a finite value, an infinity or a NaN. The plugin never computes
  with amounts, it only stores the literal \<open>1.0\<close> and what \<open>float\<close> returned.\<close>

datatype pyfloat = Finite real | PosInf | NegInf | NaN

text \<open>A dictionary entry: the key is missing, holds \<open>None\<close>, or holds a value.\<close>

datatype 'a slot = Missing | PyNone | Val 'a

text \<open>A settings value read from settings.json: the code only asks whether it is a
  \<open>str\<close> (and then looks at the text); every other JSON value takes the same branches.\<close>

datatype jvalue = Str string | NonStr

subsection \<open>String methods\<close>

text \<open>Strings are lists of code points below 256. \<open>whitespace\<close> lists those for which
  \<open>str.isspace\<close> holds, \<open>linebreaks\<close> those at which \<open>str.splitlines\<close> cuts.\<close>

definition whitespace :: "char list" where
  "whitespace = [CHR 0x09, CHR 0x0A, CHR 0x0B, CHR 0x0C, CHR 0x0D, CHR 0x1C, CHR 0x1D,
                 CHR 0x1E, CHR 0x1F, CHR 0x20, CHR 0x85, CHR 0xA0]"

definition isspace :: "char \<Rightarrow> bool" where
  "isspace c = (c \<in> set whitespace)"

definition linebreaks :: "char list" where
  "linebreaks = [CHR 0x0A, CHR 0x0B, CHR 0x0C, CHR 0x0D, CHR 0x1C, CHR 0x1D, CHR 0x1E, CHR 0x85]"

definition py_strip :: "string \<Rightarrow> string" where
  "py_strip s = rev (dropWhile isspace (rev (dropWhile isspace s)))"

fun split_acc :: "string \<Rightarrow> string \<Rightarrow> string list" where
  "split_acc cur [] = (if cur = [] then [] else [cur])"
| "split_acc cur (c # cs) =
     (if isspace c then (if cur = [] then split_acc [] cs else cur # split_acc [] cs)
      else split_acc (cur @ [c]) cs)"

definition py_split :: "string \<Rightarrow> string list" where
  "py_split s = split_acc [] s"

fun splitlines_acc :: "string \<Rightarrow> string \<Rightarrow> string list" where
  "splitlines_acc cur [] = (if cur = [] then [] else [cur])"
| "splitlines_acc cur [c] = (if c \<in> set linebreaks then [cur] else [cur @ [c]])"
| "splitlines_acc cur (c # d # cs) =
     (if c = CHR 0x0D \<and> d = CHR 0x0A then cur # splitlines_acc [] cs
      else if c \<in> set linebreaks then cur # splitlines_acc [] (d # cs)
      else splitlines_acc (cur @ [c]) (d # cs))"

definition py_splitlines :: "string \<Rightarrow> string list" where
  "py_splitlines s = splitlines_acc [] s"

fun py_join :: "string \<Rightarrow> string list \<Rightarrow> string" where
  "py_join sep [] = []"
| "py_join sep [x] = x"
| "py_join sep (x # y # xs) = x @ sep @ py_join sep (y # xs)"

text \<open>Truth value of a string and of an optional string (\<open>None\<close> and \<open>''\<close> are false).\<close>

definition truthy :: "string option \<Rightarrow> bool" where
  "truthy v = (case v of None \<Rightarrow> False | Some t \<Rightarrow> t \<noteq> [])"

section \<open>Data the plugin handles\<close>

text \<open>An entry of a request's \<open>sources\<close> or \<open>destinations\<close> list: a dictionary with the key
  \<open>currency\<close> and, for a source, the key \<open>amount\<close>.\<close>

record cur_entry =
  currency :: "string option"
  amount :: "pyfloat option"

record request =
  sources :: "cur_entry list slot"
  destinations :: "cur_entry list slot"
  extra :: "string slot"

datatype update_freq_t = Freq string

record service =
  app_id :: string

text \<open>
  The broker object (class \<open>ExchangeRates\<close> of the exchange module). Its fields are the
  attributes currencypp.py reads or writes; an attribute the code probes with \<open>getattr\<close>
  or \<open>hasattr\<close> or compares with \<open>None\<close> is optional. \<open>rates\<close> is the rate table of the
  spec's data model, which currencypp.py itself never touches.
\<close>

record ExchangeRates =
  default_cur_in :: "string option"
  default_curs_out :: "string list option"
  update_freq :: "update_freq_t option"
  expensive_service :: "service option"
  aliases :: "(string \<times> string) list"
  error :: "string option"
  last_update :: string
  rates :: "(string \<times> real) list"

record parser_properties =
  pp_default_cur_in :: "string option"
  pp_default_curs_out :: "string list option"
  to_keywords :: "string list"
  sep_keywords :: "string list"
  pp_aliases :: "(string \<times> string) list"

datatype conv_result = ConvResult (r_title: string) (r_description: string) (r_amount: pyfloat)

text \<open>A result item handed to the launcher by \<open>add_item\<close>: title, subtitle, context,
  the action with its parameter, score, and the \<open>dont_hide\<close> flag.\<close>

datatype action = NoAction | ItemAction pyfloat | UpdateRates string

datatype item = Item string string "string option" action "nat option" bool

datatype level = Debug | Info | Warning | Error | Critical

text \<open>Calls into the broker that the properties below count.\<close>

datatype call = NewExchangeRates | ForceUpdate | TryUpdate | Convert

text \<open>
  The plugin object. \<open>broker\<close> is \<open>None\<close> while the instance has no \<open>broker\<close> attribute of
  its own (reading \<open>self.broker\<close> then gives the class attribute \<open>None\<close>); \<open>parser\<close> is
  \<open>None\<close> while the attribute is unset or holds \<open>None\<close> (both make \<open>self.parser.parse\<close>
  raise AttributeError). \<open>items\<close> collects \<open>add_item\<close>, \<open>logged\<close> the logger calls (level
  and message template), \<open>calls\<close> the broker calls made so far.
\<close>

record 'p CurrencyPP =
  broker :: "ExchangeRates option"
  parser :: "'p option"
  self_update_freq :: "update_freq_t option"
  settings :: "string \<rightharpoonup> jvalue"
  items :: "item list"
  logged :: "(level \<times> string) list"
  calls :: "call list"

text \<open>
  The collaborators defined outside currencypp.py, as parameters: Python's \<open>float\<close>
  (\<open>None\<close> for ValueError); the parser module (\<open>make_parser\<close>, a parser's \<open>parse\<close>, the
  defaults of \<open>ParserProperties()\<close>); the member values of the enum \<open>UpdateFreq\<close>; the
  outcome of \<open>cache_path(self.name)\<close> followed by \<open>mkdir\<close>; the constructor and the
  methods of \<open>ExchangeRates\<close>; and \<open>self._update_update_item\<close>, which currencypp.py calls
  but does not define. A method that mutates the broker returns the broker it leaves
  behind, also when it raises.

  Modelled from the spec: \<open>validate_code\<close> and \<open>validate_alias\<close> are "pure functions over a
  static code set supplied at construction", so they do not take the broker's state;
  \<open>add_alias\<close> "mutates the Alias mapping", so it maps the alias mapping to the one
  it leaves behind.
\<close>

record 'p env =
  py_float :: "string \<Rightarrow> pyfloat option"
  parse :: "'p \<Rightarrow> string \<Rightarrow> exn + request"
  make_parser :: "parser_properties \<Rightarrow> exn + 'p"
  ParserProperties :: parser_properties
  update_freq_values :: "string list"
  cache_path :: "exn + string"
  new_ExchangeRates :: "string \<Rightarrow> update_freq_t \<Rightarrow> string \<Rightarrow> exn + ExchangeRates"
  tryUpdate :: "ExchangeRates \<Rightarrow> (exn + bool) \<times> ExchangeRates"
  force_update :: "ExchangeRates \<Rightarrow> exn option \<times> ExchangeRates"
  convert :: "ExchangeRates \<Rightarrow> request \<Rightarrow> exn + conv_result list"
  set_default_cur_in :: "ExchangeRates \<Rightarrow> string \<Rightarrow> (exn + bool) \<times> ExchangeRates"
  set_default_curs_out :: "ExchangeRates \<Rightarrow> string \<Rightarrow> (exn + bool) \<times> ExchangeRates"
  validate_code :: "string \<Rightarrow> exn + string option"
  validate_alias :: "string \<Rightarrow> exn + string option"
  add_alias :: "(string \<times> string) list \<Rightarrow> string \<Rightarrow> string \<Rightarrow> exn option \<times> (string \<times> string) list"
  update_update_item :: "exn option"

definition logger :: "level \<Rightarrow> string \<Rightarrow> 'p CurrencyPP \<Rightarrow> 'p CurrencyPP" where
  "logger lvl msg s = s\<lparr>logged := logged s @ [(lvl, msg)]\<rparr>"

definition add_item :: "item \<Rightarrow> 'p CurrencyPP \<Rightarrow> 'p CurrencyPP" where
  "add_item it s = s\<lparr>items := items s @ [it]\<rparr>"

definition called :: "call \<Rightarrow> 'p CurrencyPP \<Rightarrow> 'p CurrencyPP" where
  "called c s = s\<lparr>calls := calls s @ [c]\<rparr>"

section \<open>Query resolution\<close>

subsection \<open>\<open>_is_direct_request\<close>\<close>

text \<open>Both flags are computed before the \<open>or\<close>; \<open>query['sources']\<close> raises KeyError when
  the key is missing.\<close>

definition is_direct_request :: "request \<Rightarrow> exn + bool" where
  "is_direct_request q =
     (let entered_dest = (destinations q \<noteq> Missing \<and> destinations q \<noteq> PyNone) in
      case sources q of
        Missing \<Rightarrow> Inl (KeyError ''sources'')
      | PyNone \<Rightarrow> Inr entered_dest
      | Val ss \<Rightarrow>
          (case ss of
             [] \<Rightarrow> Inr entered_dest
           | x # xs \<Rightarrow> Inr (entered_dest \<or> currency x \<noteq> None)))"

subsection \<open>\<open>_parse_and_merge_input\<close>\<close>

definition source_entry :: "string option \<Rightarrow> pyfloat \<Rightarrow> cur_entry" where
  "source_entry cur a = \<lparr>currency = cur, amount = Some a\<rparr>"

definition dest_entry :: "string \<Rightarrow> cur_entry" where
  "dest_entry cur = \<lparr>currency = Some cur, amount = None\<rparr>"

text \<open>The template request: every field \<open>None\<close>.\<close>

definition template_request :: request where
  "template_request = \<lparr>sources = PyNone, destinations = PyNone, extra = PyNone\<rparr>"

text \<open>The request filled from given defaults with a given amount.\<close>

definition filled_request :: "string option \<Rightarrow> pyfloat \<Rightarrow> string list \<Rightarrow> request" where
  "filled_request cur a outs =
     \<lparr>sources = Val [source_entry cur a], destinations = Val (map dest_entry outs), extra = PyNone\<rparr>"

text \<open>
  Lines 130-145: \<open>base_query\<close>. Reading \<open>self.broker.default_cur_in\<close> raises AttributeError
  when there is no broker; with \<open>empty\<close> false, iterating \<open>default_curs_out\<close> raises
  TypeError when it is \<open>None\<close>. Either is caught, logged, and replaced by the USD/EUR
  request (or the template when \<open>empty\<close>).
\<close>

definition base_query :: "'p CurrencyPP \<Rightarrow> bool \<Rightarrow> request \<times> 'p CurrencyPP" where
  "base_query s empty_flag =
     (let fallback =
            (if empty_flag then template_request
             else filled_request (Some ''USD'') (Finite 1) [''EUR'']);
          failed = (fallback, logger Error ''Error creating base query: {e}'' s)
      in case broker s of
           None \<Rightarrow> failed
         | Some b \<Rightarrow>
             if empty_flag then (template_request, s)
             else (case default_curs_out b of
                     None \<Rightarrow> failed
                   | Some outs \<Rightarrow> (filled_request (default_cur_in b) (Finite 1) outs, s)))"

text \<open>\<open>not parsed.get(key)\<close>: the key is missing, \<open>None\<close>, or an empty list.\<close>

definition lacks :: "'a list slot \<Rightarrow> bool" where
  "lacks v = (case v of Missing \<Rightarrow> True | PyNone \<Rightarrow> True | Val xs \<Rightarrow> xs = [])"

text \<open>Lines 167-173: the defaults applied to a parsed request, destinations first.\<close>

definition apply_defaults :: "'p CurrencyPP \<Rightarrow> request \<Rightarrow> exn + request" where
  "apply_defaults s parsed =
     (if lacks (destinations parsed) then
        (case broker s of
           None \<Rightarrow> Inl (AttributeError ''default_curs_out'')
         | Some b \<Rightarrow>
             (case default_curs_out b of
                None \<Rightarrow> Inl (TypeError ''NoneType is not iterable'')
              | Some outs \<Rightarrow>
                  (let p1 = parsed\<lparr>destinations := Val (map dest_entry outs)\<rparr> in
                   if lacks (sources p1)
                   then Inr (p1\<lparr>sources := Val [source_entry (default_cur_in b) (Finite 1)]\<rparr>)
                   else Inr p1)))
      else if lacks (sources parsed) then
        (case broker s of
           None \<Rightarrow> Inl (AttributeError ''default_cur_in'')
         | Some b \<Rightarrow> Inr (parsed\<lparr>sources := Val [source_entry (default_cur_in b) (Finite 1)]\<rparr>))
      else Inr parsed)"

text \<open>
  \<open>_parse_and_merge_input(user_input, empty)\<close>. The result is the returned request or the
  exception that leaves the function, with the plugin (only its log can have grown).
  A \<open>user_input\<close> of \<open>None\<close> takes the branch of the empty string.
\<close>

definition parse_and_merge_input ::
  "'p env \<Rightarrow> 'p CurrencyPP \<Rightarrow> string \<Rightarrow> bool \<Rightarrow> (exn + request) \<times> 'p CurrencyPP" where
  "parse_and_merge_input E s user_input empty_flag =
     (let (base, s1) = base_query s empty_flag in
      if user_input = [] \<or> py_strip user_input = [] then (Inr base, s1)
      else
        (let u = py_strip user_input in
         case py_float E u of
           Some a \<Rightarrow>
             (case broker s1 of
                None \<Rightarrow> (Inl (AttributeError ''default_cur_in''), s1)
              | Some b \<Rightarrow>
                  (case default_curs_out b of
                     None \<Rightarrow> (Inl (TypeError ''NoneType is not iterable''), s1)
                   | Some outs \<Rightarrow> (Inr (filled_request (default_cur_in b) a outs), s1)))
         | None \<Rightarrow>
             (case parser s1 of
                None \<Rightarrow> (Inl (AttributeError ''parse''), s1)
              | Some p \<Rightarrow>
                  (case parse E p u of
                     Inl e \<Rightarrow> (if is_ParseError e then (Inr base, s1) else (Inl e, s1))
                   | Inr parsed \<Rightarrow> (apply_defaults s1 parsed, s1)))))"

subsection \<open>\<open>query\<close>\<close>

text \<open>How the \<open>try\<close> block of \<open>query\<close> ends: by a \<open>return\<close>, by reaching its end, or by an
  exception.\<close>

datatype flow = Returned | Completed | Raised exn

definition result_item :: "conv_result \<Rightarrow> item" where
  "result_item r =
     Item (r_title r) (r_description r) (Some (r_description r)) (ItemAction (r_amount r))
       (Some 100) False"

text \<open>Lines 23-51, the body of the \<open>try\<close>.\<close>

definition query_body :: "'p env \<Rightarrow> 'p CurrencyPP \<Rightarrow> string \<Rightarrow> flow \<times> 'p CurrencyPP" where
  "query_body E s user_input =
     (let (r1, s1) = parse_and_merge_input E s user_input True in
      case r1 of
        Inl e \<Rightarrow> (Raised e, s1)
      | Inr q1 \<Rightarrow>
          (case is_direct_request q1 of
             Inl e \<Rightarrow> (Raised e, s1)
           | Inr direct \<Rightarrow>
               if \<not> direct then (Returned, s1)
               else
                 (let (r2, s2) = parse_and_merge_input E s1 user_input False in
                  case r2 of
                    Inl e \<Rightarrow> (Raised e, s2)
                  | Inr q \<Rightarrow>
                      if destinations q = Missing \<or> destinations q = PyNone
                         \<or> sources q = Missing \<or> sources q = PyNone
                      then (Returned, s2)
                      else
                        (case broker s2 of
                           None \<Rightarrow> (Raised (AttributeError ''tryUpdate''), s2)
                         | Some b \<Rightarrow>
                             (let (t, b1) = tryUpdate E b;
                                  s3 = called TryUpdate (s2\<lparr>broker := Some b1\<rparr>)
                              in case t of
                                   Inl e \<Rightarrow> (Raised e, s3)
                                 | Inr updated \<Rightarrow>
                                     (case (if updated then update_update_item E else None) of
                                        Some e \<Rightarrow> (Raised e, s3)
                                      | None \<Rightarrow>
                                          if truthy (error b1)
                                          then (Returned,
                                                add_item (Item ''Webservice failed'' (the (error b1))
                                                            None NoAction None False) s3)
                                          else
                                            (case convert E b1 q of
                                               Inl e \<Rightarrow> (Raised e, called Convert s3)
                                             | Inr results \<Rightarrow>
                                                 (Completed,
                                                  fold add_item (map result_item results)
                                                    (called Convert s3)))))))))"

text \<open>Lines 60-67: the update-status item, added after the \<open>try\<close> statement. It reads
  \<open>self.broker.last_update\<close>, which raises AttributeError when there is no broker.\<close>

definition update_status :: "'p CurrencyPP \<Rightarrow> string \<Rightarrow> exn option \<times> 'p CurrencyPP" where
  "update_status s user_input =
     (case broker s of
        None \<Rightarrow> (Some (AttributeError ''last_update''), s)
      | Some b \<Rightarrow>
          (None, add_item (Item ''Update Currency'' (''Last updated at '' @ last_update b)
                             None (UpdateRates user_input) None True) s))"

text \<open>\<open>query(user_input)\<close>: \<open>None\<close> when the call returns, the exception when one leaves it.\<close>

definition query :: "'p env \<Rightarrow> 'p CurrencyPP \<Rightarrow> string \<Rightarrow> exn option \<times> 'p CurrencyPP" where
  "query E s user_input =
     (let (fl, s1) = query_body E (logger Debug ''Processing query: {user_input}'' s) user_input in
      case fl of
        Returned \<Rightarrow> (None, s1)
      | Completed \<Rightarrow> update_status s1 user_input
      | Raised e \<Rightarrow>
          if is_CurrencyError e then (None, logger Error ''Currency error: {ce}'' s1)
          else update_status
                 (add_item (Item ''Error'' (''An error occurred: '' @ exn_str e) None NoAction None False)
                    (logger Error ''Unexpected error'' s1))
                 user_input)"

section \<open>Configuration: \<open>_read_config\<close>\<close>

text \<open>
  Every part of \<open>_read_config\<close> returns the plugin it leaves behind together with the
  exception that leaves the part, if any: an exception does not undo the assignments
  made before it.
\<close>

text \<open>\<open>UpdateFreq(v)\<close>: the enum member with value \<open>v\<close>, or ValueError.\<close>

definition UpdateFreq :: "'p env \<Rightarrow> string \<Rightarrow> exn + update_freq_t" where
  "UpdateFreq E v =
     (if v \<in> set (update_freq_values E) then Inr (Freq v)
      else Inl (ValueError ''not a valid UpdateFreq''))"

text \<open>A method call on \<open>self.broker\<close>: AttributeError when there is no broker.\<close>

definition broker_call ::
  "(ExchangeRates \<Rightarrow> (exn + 'a) \<times> ExchangeRates) \<Rightarrow> 'p CurrencyPP \<Rightarrow> (exn + 'a) \<times> 'p CurrencyPP" where
  "broker_call f s =
     (case broker s of
        None \<Rightarrow> (Inl (AttributeError ''NoneType object has no such attribute''), s)
      | Some b \<Rightarrow> (let (r, b1) = f b in (r, s\<lparr>broker := Some b1\<rparr>)))"

text \<open>\<open>getattr(self.broker, 'default_cur_in', None)\<close> and its sibling.\<close>

definition getattr_cur_in :: "'p CurrencyPP \<Rightarrow> string option" where
  "getattr_cur_in s = (case broker s of None \<Rightarrow> None | Some b \<Rightarrow> default_cur_in b)"

definition getattr_curs_out :: "'p CurrencyPP \<Rightarrow> string list option" where
  "getattr_curs_out s = (case broker s of None \<Rightarrow> None | Some b \<Rightarrow> default_curs_out b)"

text \<open>Modelled from the spec: \<open>ExchangeRates.clear_aliases\<close>, which is not in
  currencypp.py; it "must leave the mapping empty".\<close>

definition clear_aliases :: "ExchangeRates \<Rightarrow> ExchangeRates" where
  "clear_aliases b = b\<lparr>aliases := []\<rparr>"

subsection \<open>Lines 196-212: update frequency and API key\<close>

text \<open>Lines 198-200: the text of the \<open>update_freq\<close> setting.\<close>

definition update_freq_setting :: "(string \<rightharpoonup> jvalue) \<Rightarrow> string" where
  "update_freq_setting st =
     (case st ''update_freq'' of
        None \<Rightarrow> ''daily''
      | Some NonStr \<Rightarrow> ''daily''
      | Some (Str v) \<Rightarrow> if v = [] then ''daily'' else v)"

definition read_update_freq :: "'p env \<Rightarrow> 'p CurrencyPP \<Rightarrow> exn option \<times> 'p CurrencyPP" where
  "read_update_freq E s =
     (case UpdateFreq E (update_freq_setting (settings s)) of
        Inr f \<Rightarrow> (None, s\<lparr>self_update_freq := Some f\<rparr>)
      | Inl e \<Rightarrow>
          (case UpdateFreq E ''daily'' of
             Inr f \<Rightarrow> (None, s\<lparr>self_update_freq := Some f\<rparr>)
           | Inl e2 \<Rightarrow> (Some e2, s)))"

text \<open>Lines 207-210: the API key of the \<open>app_id\<close> setting.\<close>

definition app_id_setting :: "(string \<rightharpoonup> jvalue) \<Rightarrow> string" where
  "app_id_setting st =
     (case st ''app_id'' of
        None \<Rightarrow> py_strip []
      | Some NonStr \<Rightarrow> py_strip []
      | Some (Str v) \<Rightarrow> py_strip v)"

subsection \<open>Lines 214-261: the broker is created or updated\<close>

text \<open>
  The result is \<open>Inr is_first_init\<close> when the \<open>try\<close> block ends, \<open>Inl e\<close> when the
  exception \<open>e\<close> reaches the handler of line 259. The constructor is called only
  where the plugin holds no broker.
\<close>

definition read_config_broker ::
  "'p env \<Rightarrow> 'p CurrencyPP \<Rightarrow> string \<Rightarrow> (exn + bool) \<times> 'p CurrencyPP" where
  "read_config_broker E s app_id_key =
     (case cache_path E of
        Inl e \<Rightarrow> (Inl e, s)
      | Inr cache_dir \<Rightarrow>
          (case broker s of
             None \<Rightarrow>
               (case self_update_freq s of
                  None \<Rightarrow> (Inl (AttributeError ''update_freq''), s)
                | Some f \<Rightarrow>
                    (case new_ExchangeRates E cache_dir f app_id_key of
                       Inl e \<Rightarrow> (Inl e, called NewExchangeRates s)
                     | Inr b \<Rightarrow>
                         (Inr True,
                          logger Info ''Created new ExchangeRates broker instance''
                            (called NewExchangeRates (s\<lparr>broker := Some b\<rparr>)))))
           | Some b \<Rightarrow>
               (let s1 = logger Info ''Updating existing broker instance during settings reload'' s in
                case update_freq b of
                  None \<Rightarrow> (Inl (ValueError ''Invalid broker state detected''), s1)
                | Some bf \<Rightarrow>
                    (let freq_changed = (Some bf \<noteq> self_update_freq s);
                         b1 = (if freq_changed then b\<lparr>update_freq := self_update_freq s\<rparr> else b);
                         key_changed =
                           (case expensive_service b1 of
                              None \<Rightarrow> False
                            | Some svc \<Rightarrow> app_id svc \<noteq> app_id_key);
                         b2 = (if key_changed
                               then b1\<lparr>expensive_service :=
                                         map_option (\<lambda>svc. svc\<lparr>app_id := app_id_key\<rparr>)
                                           (expensive_service b1)\<rparr>
                               else b1);
                         b3 = (clear_aliases b2)\<lparr>error := None\<rparr>;
                         s2 = s1\<lparr>broker := Some b3\<rparr>
                     in if freq_changed \<or> key_changed then
                          (let (r, b4) = force_update E b3;
                               s3 = called ForceUpdate
                                      ((logger Info ''Config changes detected: {}'' s2)\<lparr>broker := Some b4\<rparr>)
                           in case r of
                                Some e \<Rightarrow> (Inl e, s3)
                              | None \<Rightarrow>
                                  (Inr False, logger Info ''Forced rate refresh due to config changes'' s3))
                        else (Inr False, s2)))))"

subsection \<open>Lines 263-298: the default input currency\<close>

text \<open>Lines 270-272: the \<open>input_cur\<close> setting before it is stripped; \<open>dflt\<close> is "USD" on
  first initialisation and the current input currency (possibly \<open>None\<close>) on a reload.\<close>

definition input_cur_setting :: "(string \<rightharpoonup> jvalue) \<Rightarrow> string option \<Rightarrow> string option" where
  "input_cur_setting st dflt =
     (case st ''input_cur'' of
        None \<Rightarrow> dflt
      | Some NonStr \<Rightarrow> dflt
      | Some (Str v) \<Rightarrow> if py_strip v = [] then dflt else Some v)"

definition input_cur_body :: "'p env \<Rightarrow> bool \<Rightarrow> 'p CurrencyPP \<Rightarrow> exn option \<times> 'p CurrencyPP" where
  "input_cur_body E is_first_init s =
     (let current_input = getattr_cur_in s;
          s1 = logger Debug ''Current input currency before update: {}'' s;
          input_code =
            input_cur_setting (settings s) (if is_first_init then Some ''USD'' else current_input)
      in case input_code of
           None \<Rightarrow> (Some (AttributeError ''NoneType object has no attribute strip''), s1)
         | Some code0 \<Rightarrow>
             (let code = py_strip code0;
                  s2 = logger Debug ''New input currency from settings: {}'' s1
              in if is_first_init then
                   (case broker_call (\<lambda>b. set_default_cur_in E b code) s2 of
                      (Inl e, s3) \<Rightarrow> (Some e, s3)
                    | (Inr success, s3) \<Rightarrow>
                        if success then (None, s3)
                        else
                          (case broker_call (\<lambda>b. set_default_cur_in E b ''USD'')
                                  (logger Warning ''Failed to set initial input currency: {}'' s3) of
                             (Inl e, s4) \<Rightarrow> (Some e, s4)
                           | (Inr ok, s4) \<Rightarrow> (None, s4)))
                 else if truthy current_input \<and> Some code \<noteq> current_input then
                   (case broker_call (\<lambda>b. set_default_cur_in E b code)
                           (logger Info ''Updating input currency from {} to {}'' s2) of
                      (Inl e, s3) \<Rightarrow> (Some e, s3)
                    | (Inr success, s3) \<Rightarrow>
                        if success then (None, s3)
                        else (None, logger Info ''Keeping existing input currency: {}''
                                      (logger Warning ''Failed to update input currency to: {}'' s3)))
                 else (None, logger Debug ''Input currency unchanged, skipping update'' s2)))"

definition read_config_input_cur ::
  "'p env \<Rightarrow> bool \<Rightarrow> 'p CurrencyPP \<Rightarrow> exn option \<times> 'p CurrencyPP" where
  "read_config_input_cur E is_first_init s =
     (case input_cur_body E is_first_init s of
        (None, s1) \<Rightarrow> (None, s1)
      | (Some e, s1) \<Rightarrow>
          if is_first_init then
            (case broker_call (\<lambda>b. set_default_cur_in E b ''USD'')
                    (logger Warning ''Error setting input currency, using USD: {}'' s1) of
               (Inl e2, s2) \<Rightarrow> (Some e2, s2)
             | (Inr ok, s2) \<Rightarrow> (None, s2))
          else (None, logger Error ''Error updating input currency: {}'' s1))"

subsection \<open>Lines 300-367: the default output currencies\<close>

definition DEFAULT_OUTPUT_CUR :: string where
  "DEFAULT_OUTPUT_CUR = ''USD EUR JPY''"

definition ULTIMATE_FALLBACK_CUR :: string where
  "ULTIMATE_FALLBACK_CUR = ''USD EUR''"

text \<open>Lines 312-318: the sanitised \<open>output_cur\<close> setting.\<close>

definition output_cur_setting :: "(string \<rightharpoonup> jvalue) \<Rightarrow> string" where
  "output_cur_setting st =
     (case st ''output_cur'' of
        None \<Rightarrow> py_strip DEFAULT_OUTPUT_CUR
      | Some NonStr \<Rightarrow> DEFAULT_OUTPUT_CUR
      | Some (Str v) \<Rightarrow> if py_strip v = [] then DEFAULT_OUTPUT_CUR else py_strip v)"

definition output_cur_body :: "'p env \<Rightarrow> bool \<Rightarrow> 'p CurrencyPP \<Rightarrow> exn option \<times> 'p CurrencyPP" where
  "output_cur_body E is_first_init s =
     (let output_code = output_cur_setting (settings s);
          current_currencies = getattr_curs_out s;
          s1 = logger Debug ''New output currencies from settings: {}''
                 (logger Debug ''Current output currencies before update: {}'' s)
      in if is_first_init then
           (case broker_call (\<lambda>b. set_default_curs_out E b output_code) s1 of
              (Inl e, s2) \<Rightarrow> (Some e, s2)
            | (Inr success, s2) \<Rightarrow>
                if success then (None, s2)
                else
                  (case broker_call (\<lambda>b. set_default_curs_out E b DEFAULT_OUTPUT_CUR)
                          (logger Warning ''Failed to set initial output currencies: {}'' s2) of
                     (Inl e, s3) \<Rightarrow> (Some e, s3)
                   | (Inr ok, s3) \<Rightarrow>
                       if ok then (None, s3)
                       else
                         (case broker_call (\<lambda>b. set_default_curs_out E b ULTIMATE_FALLBACK_CUR)
                                 (logger Warning ''Failed to set default output currencies: {}'' s3) of
                            (Inl e, s4) \<Rightarrow> (Some e, s4)
                          | (Inr ok2, s4) \<Rightarrow> (None, s4))))
         else
           (case current_currencies of
              None \<Rightarrow>
                (case broker_call (\<lambda>b. set_default_curs_out E b output_code)
                        (logger Error ''Broker lost currency state during reload'' s1) of
                   (Inl e, s2) \<Rightarrow> (Some e, s2)
                 | (Inr success, s2) \<Rightarrow>
                     if success then (None, s2)
                     else
                       (case broker_call (\<lambda>b. set_default_curs_out E b ULTIMATE_FALLBACK_CUR) s2 of
                          (Inl e, s3) \<Rightarrow> (Some e, s3)
                        | (Inr ok, s3) \<Rightarrow> (None, s3)))
            | Some cc \<Rightarrow>
                (let current_str = py_join '' '' cc in
                 if current_str \<noteq> output_code then
                   (case broker_call (\<lambda>b. set_default_curs_out E b output_code)
                           (logger Info ''Updating output currencies from {} to {}'' s1) of
                      (Inl e, s2) \<Rightarrow> (Some e, s2)
                    | (Inr success, s2) \<Rightarrow>
                        if success
                        then (None, logger Info ''Successfully updated output currencies'' s2)
                        else (None, logger Info ''Keeping existing currencies: {}''
                                      (logger Warning ''Failed to update to new output currencies: {}'' s2)))
                 else (None, logger Debug ''Output currencies unchanged, skipping update'' s1))))"

definition read_config_output_cur ::
  "'p env \<Rightarrow> bool \<Rightarrow> 'p CurrencyPP \<Rightarrow> exn option \<times> 'p CurrencyPP" where
  "read_config_output_cur E is_first_init s =
     (case output_cur_body E is_first_init s of
        (None, s1) \<Rightarrow> (None, s1)
      | (Some e, s1) \<Rightarrow>
          (let existing_currencies = getattr_curs_out s1 in
           if existing_currencies = None \<or> existing_currencies = Some []
              \<or> existing_currencies = Some [''USD'', ''EUR'', ''JPY'']
           then
             (case broker_call (\<lambda>b. set_default_curs_out E b ULTIMATE_FALLBACK_CUR)
                     (logger Error ''Error processing output currencies during bootstrap: {}'' s1) of
                (Inl e2, s2) \<Rightarrow> (Some e2, s2)
              | (Inr ok, s2) \<Rightarrow> (None, s2))
           else (None, logger Error ''Error processing output currencies during runtime: {}'' s1)))"

subsection \<open>Lines 369-391: separators\<close>

definition read_separators :: "'p CurrencyPP \<Rightarrow> string \<Rightarrow> string \<Rightarrow> string list \<Rightarrow> string list" where
  "read_separators s key dflt_string dflt_list =
     (let separators_string =
            (case settings s key of
               None \<Rightarrow> dflt_string
             | Some NonStr \<Rightarrow> dflt_string
             | Some (Str v) \<Rightarrow> v);
          stripped = py_strip separators_string;
          separators = (if stripped \<noteq> [] then py_split stripped else dflt_list)
      in if separators = [] then dflt_list else separators)"

subsection \<open>Lines 393-434: aliases\<close>

definition DEFAULT_ALIASES :: string where
  "DEFAULT_ALIASES = ''EUR = euro euros'' @ [CHR 0x0A] @ ''usd = dollar dollars $ bucks''"

text \<open>Lines 421-428: the aliases of one line; an alias that fails to validate or to be
  added is skipped.\<close>

fun add_aliases ::
  "'p env \<Rightarrow> string \<Rightarrow> string list \<Rightarrow> (string \<times> string) list \<Rightarrow> (string \<times> string) list" where
  "add_aliases E validated_key [] m = m"
| "add_aliases E validated_key (a # rest) m =
     (if a = [] then add_aliases E validated_key rest m
      else
        (case validate_alias E a of
           Inl e \<Rightarrow> add_aliases E validated_key rest m
         | Inr validated_alias \<Rightarrow>
             if truthy validated_alias
             then add_aliases E validated_key rest
                    (snd (add_alias E m (the validated_alias) validated_key))
             else add_aliases E validated_key rest m))"

text \<open>Lines 401-432: one line of the aliases text.\<close>

definition alias_line :: "'p env \<Rightarrow> string \<Rightarrow> (string \<times> string) list \<Rightarrow> (string \<times> string) list" where
  "alias_line E raw m =
     (let line = py_strip raw in
      if line = [] \<or> CHR ''='' \<notin> set line then m
      else
        (let key = py_strip (takeWhile (\<lambda>c. c \<noteq> CHR ''='') line);
             aliases_part = py_strip (tl (dropWhile (\<lambda>c. c \<noteq> CHR ''='') line))
         in if key = [] \<or> aliases_part = [] then m
            else
              (case validate_code E key of
                 Inl e \<Rightarrow> m
               | Inr validated_key \<Rightarrow>
                   if truthy validated_key
                   then add_aliases E (the validated_key) (py_split aliases_part) m
                   else m)))"

text \<open>The alias mapping built from an aliases text, starting from the empty mapping.\<close>

definition build_aliases :: "'p env \<Rightarrow> string \<Rightarrow> (string \<times> string) list" where
  "build_aliases E aliases_string = fold (alias_line E) (py_splitlines aliases_string) []"

text \<open>The text of the \<open>aliases\<close> setting that the loop of line 400 runs over: nothing
  when the value is not a string.\<close>

definition aliases_setting :: "(string \<rightharpoonup> jvalue) \<Rightarrow> string" where
  "aliases_setting st =
     (case st ''aliases'' of
        None \<Rightarrow> DEFAULT_ALIASES
      | Some NonStr \<Rightarrow> []
      | Some (Str v) \<Rightarrow> v)"

definition read_config_aliases :: "'p env \<Rightarrow> 'p CurrencyPP \<Rightarrow> 'p CurrencyPP" where
  "read_config_aliases E s =
     (case broker s of
        None \<Rightarrow> logger Warning ''Error processing aliases: {}'' s
      | Some b \<Rightarrow>
          s\<lparr>broker :=
               Some ((clear_aliases b)\<lparr>aliases :=
                        fold (alias_line E) (py_splitlines (aliases_setting (settings s)))
                          (aliases (clear_aliases b))\<rparr>)\<rparr>)"

subsection \<open>Lines 436-493: the parser\<close>

text \<open>\<open>ParserProperties()\<close> with the broker's currencies (\<open>getattr\<close> with the defaults of
  lines 459-460), and with keywords and aliases as well (lines 443-447).\<close>

definition props_with_currencies :: "'p env \<Rightarrow> 'p CurrencyPP \<Rightarrow> parser_properties" where
  "props_with_currencies E s =
     (ParserProperties E)
       \<lparr>pp_default_cur_in := (case broker s of None \<Rightarrow> Some ''USD'' | Some b \<Rightarrow> default_cur_in b),
        pp_default_curs_out :=
          (case broker s of None \<Rightarrow> Some [''USD'', ''EUR''] | Some b \<Rightarrow> default_curs_out b)\<rparr>"

definition full_props ::
  "'p env \<Rightarrow> 'p CurrencyPP \<Rightarrow> string list \<Rightarrow> string list \<Rightarrow> parser_properties" where
  "full_props E s separators dest_separators =
     (props_with_currencies E s)
       \<lparr>to_keywords := separators,
        sep_keywords := dest_separators,
        pp_aliases := (case broker s of None \<Rightarrow> [] | Some b \<Rightarrow> aliases b)\<rparr>"

definition read_config_parser ::
  "'p env \<Rightarrow> string list \<Rightarrow> string list \<Rightarrow> 'p CurrencyPP \<Rightarrow> 'p CurrencyPP" where
  "read_config_parser E separators dest_separators s =
     (case make_parser E (full_props E s separators dest_separators) of
        Inr p \<Rightarrow>
          logger Info ''Parser initialized successfully with full configuration''
            (s\<lparr>parser := Some p\<rparr>)
      | Inl e \<Rightarrow>
          (let s1 = logger Error ''Full parser initialization failed: {}'' s in
           case make_parser E (props_with_currencies E s1) of
             Inr p \<Rightarrow>
               logger Warning ''Parser initialized with minimal configuration (currencies only)''
                 (s1\<lparr>parser := Some p\<rparr>)
           | Inl e2 \<Rightarrow>
               (let s2 = logger Error ''Minimal parser initialization failed: {}'' s1 in
                case make_parser E (ParserProperties E) of
                  Inr p \<Rightarrow>
                    logger Warning ''Parser initialized with ultimate fallback configuration''
                      (s2\<lparr>parser := Some p\<rparr>)
                | Inl e3 \<Rightarrow>
                    logger Critical
                      ''Parser initialization completely failed - plugin may not function correctly''
                      ((logger Critical ''All parser initialization attempts failed'' s2)
                         \<lparr>parser := None\<rparr>))))"

definition read_config_summary :: "'p CurrencyPP \<Rightarrow> 'p CurrencyPP" where
  "read_config_summary s =
     logger Info ''Plugin configured with {} aliases''
       (logger Info ''Plugin configured with output currencies: {}''
          (logger Info ''Plugin configured with input currency: {}'' s))"

subsection \<open>\<open>_read_config\<close> as a whole\<close>

text \<open>
  Lines 196-367, up to the default currencies: the part ends by the \<open>return\<close> of line
  261 (\<open>Returned\<close>), by an exception that no handler catches (\<open>Raised\<close>: from
  \<open>UpdateFreq('daily')\<close> at line 203 or from the calls inside the handlers of lines 296
  and 363), or it reaches line 369 (\<open>Completed\<close>).
\<close>

definition read_config_defaults :: "'p env \<Rightarrow> 'p CurrencyPP \<Rightarrow> flow \<times> 'p CurrencyPP" where
  "read_config_defaults E s =
     (case read_update_freq E s of
        (Some e, s1) \<Rightarrow> (Raised e, s1)
      | (None, s1) \<Rightarrow>
          (case read_config_broker E s1 (app_id_setting (settings s1)) of
             (Inl e, s2) \<Rightarrow>
               (Returned, logger Error ''Failed to initialize ExchangeRates broker: {}'' s2)
           | (Inr is_first_init, s2) \<Rightarrow>
               (case read_config_input_cur E is_first_init s2 of
                  (Some e, s3) \<Rightarrow> (Raised e, s3)
                | (None, s3) \<Rightarrow>
                    (case read_config_output_cur E is_first_init s3 of
                       (Some e, s4) \<Rightarrow> (Raised e, s4)
                     | (None, s4) \<Rightarrow> (Completed, s4)))))"

text \<open>Lines 369-493: separators, aliases, parser and the closing log lines; nothing here
  raises.\<close>

definition read_config_rest :: "'p env \<Rightarrow> 'p CurrencyPP \<Rightarrow> 'p CurrencyPP" where
  "read_config_rest E s =
     read_config_summary
       (read_config_parser E
          (read_separators s ''separators'' ''to in :'' [''to'', ''in'', '':''])
          (read_separators s ''destination_separators'' ''and & ,'' [''and'', ''&'', '',''])
          (read_config_aliases E s))"

definition read_config :: "'p env \<Rightarrow> 'p CurrencyPP \<Rightarrow> exn option \<times> 'p CurrencyPP" where
  "read_config E s =
     (case read_config_defaults E s of
        (Raised e, s1) \<Rightarrow> (Some e, s1)
      | (Returned, s1) \<Rightarrow> (None, s1)
      | (Completed, s1) \<Rightarrow> (None, read_config_rest E s1))"

section \<open>\<open>reload_settings\<close>\<close>

text \<open>
  Lines 78-100, the body of the \<open>try\<close>. \<open>reloaded\<close> is the outcome of
  \<open>self.settings.reload()\<close>: the new settings, or the exception it raises. \<open>old_state\<close> is
  bound only where the plugin held a broker on entry.
\<close>

definition reload_body ::
  "'p env \<Rightarrow> exn + (string \<rightharpoonup> jvalue) \<Rightarrow> 'p CurrencyPP \<Rightarrow> exn option \<times> 'p CurrencyPP" where
  "reload_body E reloaded s =
     (let old_state =
            (case broker s of
               None \<Rightarrow> None
             | Some b \<Rightarrow> Some (default_cur_in b, default_curs_out b))
      in case reloaded of
           Inl e \<Rightarrow> (Some e, s)
         | Inr new_settings \<Rightarrow>
             (case read_config E (s\<lparr>settings := new_settings\<rparr>) of
                (Some e, s1) \<Rightarrow> (Some e, s1)
              | (None, s1) \<Rightarrow>
                  (case broker s1 of
                     None \<Rightarrow> (None, s1)
                   | Some b1 \<Rightarrow>
                       (case old_state of
                          None \<Rightarrow> (Some (UnboundLocalError ''old_state''), s1)
                        | Some (old_input, old_output) \<Rightarrow>
                            (let s2 = (if old_input \<noteq> default_cur_in b1
                                       then logger Info ''Input currency updated: {} -> {}'' s1
                                       else s1);
                                 s3 = (if old_output \<noteq> default_curs_out b1
                                       then logger Info ''Output currencies updated: {} -> {}'' s2
                                       else s2)
                             in if old_input \<noteq> default_cur_in b1 \<or> old_output \<noteq> default_curs_out b1
                                then (let (r, b2) = force_update E b1
                                      in (r, called ForceUpdate (s3\<lparr>broker := Some b2\<rparr>)))
                                else (None, s3))))))"

text \<open>
  \<open>reload_settings\<close>: the handler of line 102 logs, deletes the instance's \<open>broker\<close>
  attribute (AttributeError when the instance has none) and runs \<open>_read_config\<close> again;
  the handler of line 109 logs whatever that raises.
\<close>

definition reload_settings ::
  "'p env \<Rightarrow> exn + (string \<rightharpoonup> jvalue) \<Rightarrow> 'p CurrencyPP \<Rightarrow> exn option \<times> 'p CurrencyPP" where
  "reload_settings E reloaded s =
     (case reload_body E reloaded s of
        (None, s1) \<Rightarrow> (None, s1)
      | (Some e, s1) \<Rightarrow>
          (let s2 = logger Error ''Settings reload failed: {}'' s1 in
           case broker s2 of
             None \<Rightarrow> (None, logger Critical ''Settings recovery failed: {}'' s2)
           | Some b \<Rightarrow>
               (case read_config E (s2\<lparr>broker := None\<rparr>) of
                  (Some e2, s3) \<Rightarrow> (None, logger Critical ''Settings recovery failed: {}'' s3)
                | (None, s3) \<Rightarrow> (None, s3))))"

section \<open>A sample of the collaborators\<close>

text \<open>
  Concrete collaborators on which the definitions above can be run. Modelled from the
  spec: the exchange module and the parser module are not in currencypp.py; the sample
  follows sections 4.1 to 4.4 of the spec on four currencies, a handful of float
  literals and a handful of query texts.
\<close>

definition sample_float :: "string \<Rightarrow> pyfloat option" where
  "sample_float t =
     map_of [(''100'', Finite 100), (''1e5'', Finite 100000), (''-2.5'', Finite (- 5 / 2)),
             (''inf'', PosInf), (''nan'', NaN)] t"

definition known_codes :: "string list" where
  "known_codes = [''USD'', ''EUR'', ''JPY'', ''GBP'']"

definition upper_char :: "char \<Rightarrow> char" where
  "upper_char c =
     (case map_of (zip ''abcdefghijklmnopqrstuvwxyz'' ''ABCDEFGHIJKLMNOPQRSTUVWXYZ'') c of
        None \<Rightarrow> c
      | Some d \<Rightarrow> d)"

definition sample_validate_code :: "string \<Rightarrow> exn + string option" where
  "sample_validate_code t =
     (let code = map upper_char (py_strip t) in
      if code \<in> set known_codes then Inr (Some code)
      else Inl (CurrencyError ''invalid currency''))"

definition sample_validate_alias :: "string \<Rightarrow> exn + string option" where
  "sample_validate_alias t =
     (let a = map upper_char (py_strip t) in
      if a = [] \<or> a \<in> set known_codes then Inl (CurrencyError ''invalid alias'')
      else Inr (Some a))"

fun dict_set :: "(string \<times> string) list \<Rightarrow> string \<Rightarrow> string \<Rightarrow> (string \<times> string) list" where
  "dict_set [] k v = [(k, v)]"
| "dict_set ((k0, v0) # m) k v = (if k0 = k then (k, v) # m else (k0, v0) # dict_set m k v)"

definition sample_add_alias ::
  "(string \<times> string) list \<Rightarrow> string \<Rightarrow> string \<Rightarrow> exn option \<times> (string \<times> string) list" where
  "sample_add_alias m a code = (None, dict_set m a code)"

definition sample_set_default_cur_in :: "ExchangeRates \<Rightarrow> string \<Rightarrow> (exn + bool) \<times> ExchangeRates" where
  "sample_set_default_cur_in b t =
     (case sample_validate_code t of
        Inr (Some code) \<Rightarrow> (Inr True, b\<lparr>default_cur_in := Some code\<rparr>)
      | Inr None \<Rightarrow> (Inr False, b)
      | Inl e \<Rightarrow> (Inr False, b))"

definition sample_set_default_curs_out :: "ExchangeRates \<Rightarrow> string \<Rightarrow> (exn + bool) \<times> ExchangeRates" where
  "sample_set_default_curs_out b t =
     (let codes = map (\<lambda>w. map upper_char w) (py_split t) in
      if codes \<noteq> [] \<and> list_all (\<lambda>c. c \<in> set known_codes) codes
      then (Inr True, b\<lparr>default_curs_out := Some codes\<rparr>)
      else (Inr False, b))"

definition fetched_rates :: "(string \<times> real) list" where
  "fetched_rates = [(''USD'', 1), (''EUR'', 9 / 10), (''JPY'', 150), (''GBP'', 4 / 5)]"

definition sample_force_update :: "ExchangeRates \<Rightarrow> exn option \<times> ExchangeRates" where
  "sample_force_update b =
     (None, b\<lparr>rates := fetched_rates, error := None, last_update := ''2024-01-02T00:00:00''\<rparr>)"

text \<open>The sample broker is always fresh: \<open>tryUpdate\<close> attempts nothing.\<close>

definition sample_tryUpdate :: "ExchangeRates \<Rightarrow> (exn + bool) \<times> ExchangeRates" where
  "sample_tryUpdate b = (Inr False, b)"

fun convert_one :: "(string \<times> real) list \<Rightarrow> real \<Rightarrow> real \<Rightarrow> cur_entry list \<Rightarrow> exn + conv_result list" where
  "convert_one table a rs [] = Inr []"
| "convert_one table a rs (d # ds) =
     (case currency d of
        None \<Rightarrow> Inl (CurrencyError ''rate unavailable'')
      | Some cd \<Rightarrow>
          (case map_of table cd of
             None \<Rightarrow> Inl (CurrencyError ''rate unavailable'')
           | Some rd \<Rightarrow>
               (case convert_one table a rs ds of
                  Inl e \<Rightarrow> Inl e
                | Inr results \<Rightarrow> Inr (ConvResult cd cd (Finite (a * rd / rs)) # results))))"

definition sample_convert :: "ExchangeRates \<Rightarrow> request \<Rightarrow> exn + conv_result list" where
  "sample_convert b q =
     (case (sources q, destinations q) of
        (Val [src], Val ds) \<Rightarrow>
          (case (currency src, amount src) of
             (Some cs, Some (Finite a)) \<Rightarrow>
               (case map_of (rates b) cs of
                  None \<Rightarrow> Inl (CurrencyError ''rate unavailable'')
                | Some rs \<Rightarrow> convert_one (rates b) a rs ds)
           | other \<Rightarrow> Inl (CurrencyError ''rate unavailable''))
      | other \<Rightarrow> Inl (CurrencyError ''rate unavailable''))"

definition sample_new_ExchangeRates :: "string \<Rightarrow> update_freq_t \<Rightarrow> string \<Rightarrow> exn + ExchangeRates" where
  "sample_new_ExchangeRates cache_dir f key =
     Inr \<lparr>default_cur_in = Some ''USD'', default_curs_out = Some [''USD'', ''EUR'', ''JPY''],
          update_freq = Some f, expensive_service = Some \<lparr>app_id = key\<rparr>, aliases = [],
          error = None, last_update = ''2024-01-01T00:00:00'', rates = fetched_rates\<rparr>"

text \<open>The sample parser is the properties it was made from; it knows three query texts.\<close>

definition sample_parse :: "parser_properties \<Rightarrow> string \<Rightarrow> exn + request" where
  "sample_parse props t =
     (if t = ''50 eur to usd'' then
        Inr \<lparr>sources = Val [source_entry (Some ''EUR'') (Finite 50)],
             destinations = Val [dest_entry ''USD''], extra = PyNone\<rparr>
      else if t = ''5 gbp'' then
        Inr \<lparr>sources = Val [source_entry (Some ''GBP'') (Finite 5)],
             destinations = PyNone, extra = PyNone\<rparr>
      else if t = ''to jpy'' then
        Inr \<lparr>sources = PyNone, destinations = Val [dest_entry ''JPY''], extra = PyNone\<rparr>
      else Inl (ParseError ''expected a currency''))"

definition sample_props :: parser_properties where
  "sample_props =
     \<lparr>pp_default_cur_in = Some ''USD'', pp_default_curs_out = Some [''EUR''],
      to_keywords = [''to'', ''in'', '':''], sep_keywords = [''and'', ''&'', '',''],
      pp_aliases = []\<rparr>"

definition sample_env :: "parser_properties env" where
  "sample_env =
     \<lparr>py_float = sample_float,
      parse = sample_parse,
      make_parser = (\<lambda>props. Inr props),
      ParserProperties = sample_props,
      update_freq_values = [''never'', ''hourly'', ''daily''],
      cache_path = Inr ''cache'',
      new_ExchangeRates = sample_new_ExchangeRates,
      tryUpdate = sample_tryUpdate,
      force_update = sample_force_update,
      convert = sample_convert,
      set_default_cur_in = sample_set_default_cur_in,
      set_default_curs_out = sample_set_default_curs_out,
      validate_code = sample_validate_code,
      validate_alias = sample_validate_alias,
      add_alias = sample_add_alias,
      update_update_item = None\<rparr>"

text \<open>A running broker with defaults USD and EUR, JPY, and the plugin that holds it.\<close>

definition sample_broker :: ExchangeRates where
  "sample_broker =
     \<lparr>default_cur_in = Some ''USD'', default_curs_out = Some [''EUR'', ''JPY''],
      update_freq = Some (Freq ''daily''), expensive_service = Some \<lparr>app_id = ''key''\<rparr>,
      aliases = [(''EURO'', ''EUR'')], error = None, last_update = ''2024-01-01T00:00:00'',
      rates = [(''USD'', 1), (''EUR'', 9 / 10), (''JPY'', 150)]\<rparr>"

definition sample_plugin :: "parser_properties CurrencyPP" where
  "sample_plugin =
     \<lparr>broker = Some sample_broker, parser = Some sample_props,
      self_update_freq = Some (Freq ''daily''), settings = Map.empty,
      items = [], logged = [], calls = []\<rparr>"

text \<open>The settings that agree with the sample broker: a reload with them finds nothing
  to change.\<close>

definition sample_settings :: "string \<rightharpoonup> jvalue" where
  "sample_settings =
     Map.empty(''update_freq'' \<mapsto> Str ''daily'', ''app_id'' \<mapsto> Str ''key'',
               ''input_cur'' \<mapsto> Str ''USD'', ''output_cur'' \<mapsto> Str ''EUR JPY'',
               ''aliases'' \<mapsto> Str ''EUR = euro'')"

text \<open>A plugin whose first initialisation failed: no broker, no parser.\<close>

definition bare_plugin :: "parser_properties CurrencyPP" where
  "bare_plugin =
     \<lparr>broker = None, parser = None, self_update_freq = None, settings = Map.empty,
      items = [], logged = [], calls = []\<rparr>"

section \<open>Notions used to state the facts\<close>

text \<open>What a part of \<open>_read_config\<close> that only talks to the broker leaves alone: the
  settings, the items, the recorded calls, the parser, and whether a broker is held.\<close>

definition keeps :: "'p CurrencyPP \<Rightarrow> 'p CurrencyPP \<Rightarrow> bool" where
  "keeps s t = (settings t = settings s \<and> items t = items s \<and> calls t = calls s
                \<and> parser t = parser s \<and> (broker t = None) = (broker s = None))"

section \<open>Facts about query resolution\<close>

lemma py_strip_Nil: "py_strip [] = []"
  by (simp add: py_strip_def)

lemma base_query_template: "fst (base_query s True) = template_request"
  by (simp add: base_query_def Let_def split: option.splits)

lemma base_queryD:
  assumes "base_query s f = (q, t)"
  shows "broker t = broker s" and "parser t = parser s" and "items t = items s"
    and "calls t = calls s" and "settings t = settings s"
  using assms by (auto simp: base_query_def logger_def Let_def split: option.splits if_splits)

text \<open>The request \<open>_parse_and_merge_input\<close> returns depends on the broker and the parser
  only; the plugin it leaves is the one \<open>base_query\<close> leaves.\<close>

lemma pami_fst:
  "fst (parse_and_merge_input E s u f) =
     (if u = [] \<or> py_strip u = [] then Inr (fst (base_query s f))
      else case py_float E (py_strip u) of
           Some a \<Rightarrow>
             (case broker s of
                None \<Rightarrow> Inl (AttributeError ''default_cur_in'')
              | Some b \<Rightarrow>
                  (case default_curs_out b of
                     None \<Rightarrow> Inl (TypeError ''NoneType is not iterable'')
                   | Some outs \<Rightarrow> Inr (filled_request (default_cur_in b) a outs)))
         | None \<Rightarrow>
             (case parser s of
                None \<Rightarrow> Inl (AttributeError ''parse'')
              | Some p \<Rightarrow>
                  (case parse E p (py_strip u) of
                     Inl e \<Rightarrow> (if is_ParseError e then Inr (fst (base_query s f)) else Inl e)
                   | Inr parsed \<Rightarrow> apply_defaults s parsed)))"
proof -
  obtain q t where e: "base_query s f = (q, t)" by (cases "base_query s f")
  have ad: "apply_defaults t parsed = apply_defaults s parsed" for parsed
    using base_queryD(1)[OF e] by (simp add: apply_defaults_def)
  show ?thesis
    using base_queryD(1,2)[OF e]
    by (simp add: parse_and_merge_input_def e ad Let_def split: option.splits sum.splits)
qed

lemma pami_snd: "snd (parse_and_merge_input E s u f) = snd (base_query s f)"
proof -
  obtain q t where e: "base_query s f = (q, t)" by (cases "base_query s f")
  show ?thesis
    by (simp add: parse_and_merge_input_def e Let_def split: option.splits sum.splits)
qed

lemma pami_fst_cong:
  assumes "broker s' = broker s" and "parser s' = parser s"
  shows "fst (parse_and_merge_input E s' u f) = fst (parse_and_merge_input E s u f)"
proof -
  have a: "fst (base_query s' f) = fst (base_query s f)"
    using assms(1) by (simp add: base_query_def Let_def split: option.splits)
  have c: "apply_defaults s' parsed = apply_defaults s parsed" for parsed
    by (simp add: apply_defaults_def assms(1))
  show ?thesis
    by (simp only: pami_fst a c assms)
qed

lemma pami_fst_logger:
  "fst (parse_and_merge_input E (logger l m s) u f) = fst (parse_and_merge_input E s u f)"
  by (rule pami_fst_cong) (simp_all add: logger_def)

lemma pami_snd_fields:
  "broker (snd (parse_and_merge_input E s u f)) = broker s"
  "parser (snd (parse_and_merge_input E s u f)) = parser s"
  "items (snd (parse_and_merge_input E s u f)) = items s"
  "calls (snd (parse_and_merge_input E s u f)) = calls s"
  using base_queryD[of s f "fst (base_query s f)" "snd (base_query s f)"]
  by (simp_all add: pami_snd)

lemma sample_strip:
  "py_strip ''to to to'' = ''to to to''"
  "py_strip '' 100 '' = ''100''"
  "py_strip ''100'' = ''100''"
  "py_strip ''nan'' = ''nan''"
  "py_strip ''  5 gbp '' = ''5 gbp''"
  by (simp_all add: py_strip_def isspace_def whitespace_def)

section \<open>Facts about \<open>_read_config\<close>\<close>

lemma keeps_refl: "keeps s s"
  by (simp add: keeps_def)

lemma keeps_logger: "keeps s0 t \<Longrightarrow> keeps s0 (logger l m t)"
  by (simp add: keeps_def logger_def)

lemma keeps_pair: "keeps s0 t \<Longrightarrow> keeps s0 (snd (r, t))"
  by simp

lemma keeps_if:
  "\<lbrakk>c \<Longrightarrow> keeps s0 (snd A); \<not> c \<Longrightarrow> keeps s0 (snd B)\<rbrakk> \<Longrightarrow> keeps s0 (snd (if c then A else B))"
  by simp

lemma keeps_case_option:
  "\<lbrakk>x = None \<Longrightarrow> keeps s0 (snd A); \<And>v. x = Some v \<Longrightarrow> keeps s0 (snd (B v))\<rbrakk>
   \<Longrightarrow> keeps s0 (snd (case x of None \<Rightarrow> A | Some v \<Rightarrow> B v))"
  by (cases x) simp_all

lemma keeps_broker_call_case:
  assumes "\<And>e t. keeps s0 t \<Longrightarrow> keeps s0 (snd (f e t))"
    and "\<And>ok t. keeps s0 t \<Longrightarrow> keeps s0 (snd (g ok t))"
    and "keeps s0 s"
  shows "keeps s0 (snd (case broker_call c s of (Inl e, t) \<Rightarrow> f e t | (Inr ok, t) \<Rightarrow> g ok t))"
proof -
  obtain r t where e: "broker_call c s = (r, t)" by (cases "broker_call c s")
  have "keeps s t"
    using e by (auto simp: keeps_def broker_call_def case_prod_beta split: option.splits)
  with assms(3) have k: "keeps s0 t" by (simp add: keeps_def)
  show ?thesis
    using assms(1)[OF k] assms(2)[OF k] by (cases r) (simp_all add: e)
qed

lemmas keeps_rules =
  keeps_broker_call_case keeps_if keeps_case_option keeps_pair keeps_logger

lemma keeps_output_cur_body: "keeps s0 s \<Longrightarrow> keeps s0 (snd (output_cur_body E first s))"
  unfolding output_cur_body_def Let_def
  by (rule keeps_rules | assumption)+

lemma keeps_input_cur_body: "keeps s0 s \<Longrightarrow> keeps s0 (snd (input_cur_body E first s))"
  unfolding input_cur_body_def Let_def
  by (rule keeps_rules | assumption)+


lemma keeps_case_body:
  assumes "keeps s0 (snd p)"
    and "\<And>t. keeps s0 t \<Longrightarrow> keeps s0 (snd (f t))"
    and "\<And>e t. keeps s0 t \<Longrightarrow> keeps s0 (snd (g e t))"
  shows "keeps s0 (snd (case p of (None, t) \<Rightarrow> f t | (Some e, t) \<Rightarrow> g e t))"
  using assms by (cases p; cases "fst p") auto

lemma keeps_read_config_input_cur:
  "keeps s0 s \<Longrightarrow> keeps s0 (snd (read_config_input_cur E first s))"
  unfolding read_config_input_cur_def
  by (rule keeps_case_body keeps_input_cur_body keeps_rules | assumption)+

lemma keeps_read_config_output_cur:
  "keeps s0 s \<Longrightarrow> keeps s0 (snd (read_config_output_cur E first s))"
  unfolding read_config_output_cur_def Let_def
  by (rule keeps_case_body keeps_output_cur_body keeps_rules | assumption)+

lemma keeps_read_update_freq: "keeps s (snd (read_update_freq E s))"
  by (simp add: read_update_freq_def keeps_def split: sum.splits)

lemma read_config_broker_frame:
  "settings (snd (read_config_broker E s k)) = settings s"
  "items (snd (read_config_broker E s k)) = items s"
  "parser (snd (read_config_broker E s k)) = parser s"
  by (simp_all add: read_config_broker_def Let_def logger_def called_def case_prod_beta
      split: sum.splits option.splits)

lemma read_config_broker_Inr:
  assumes "fst (read_config_broker E s k) = Inr first"
  shows "broker (snd (read_config_broker E s k)) \<noteq> None" and "first = (broker s = None)"
  using assms
  by (auto simp: read_config_broker_def Let_def logger_def called_def case_prod_beta
      split: sum.splits option.splits if_splits)

lemma read_config_broker_Some:
  assumes "broker s = Some b"
  shows "broker (snd (read_config_broker E s k)) \<noteq> None"
    and "calls (snd (read_config_broker E s k)) = calls s
         \<or> calls (snd (read_config_broker E s k)) = calls s @ [ForceUpdate]"
  using assms
  by (auto simp: read_config_broker_def Let_def logger_def called_def case_prod_beta
      split: sum.splits option.splits if_splits)


lemma keepsD:
  assumes "keeps s t"
  shows "settings t = settings s" and "items t = items s" and "calls t = calls s"
    and "parser t = parser s" and "(broker t = None) = (broker s = None)"
    and "(\<exists>y. broker t = Some y) = (\<exists>y. broker s = Some y)"
  using assms by (auto simp: keeps_def)

lemmas input_cur_fields = keepsD[OF keeps_read_config_input_cur[OF keeps_refl]]
lemmas output_cur_fields = keepsD[OF keeps_read_config_output_cur[OF keeps_refl]]
lemmas update_freq_fields = keepsD[OF keeps_read_update_freq]

lemma read_config_defaults_frame:
  "settings (snd (read_config_defaults E s)) = settings s"
  "items (snd (read_config_defaults E s)) = items s"
  "parser (snd (read_config_defaults E s)) = parser s"
  by (simp_all add: read_config_defaults_def case_prod_beta input_cur_fields output_cur_fields
      update_freq_fields read_config_broker_frame logger_def split: option.splits sum.splits)

lemma read_config_defaults_Completed:
  assumes "fst (read_config_defaults E s) = Completed"
  shows "broker (snd (read_config_defaults E s)) \<noteq> None"
  using assms
  by (auto simp: read_config_defaults_def case_prod_beta input_cur_fields output_cur_fields
      dest: read_config_broker_Inr(1) split: option.splits sum.splits)

lemma read_config_defaults_Some:
  assumes "broker s = Some b"
  shows "broker (snd (read_config_defaults E s)) \<noteq> None"
    and "calls (snd (read_config_defaults E s)) = calls s
         \<or> calls (snd (read_config_defaults E s)) = calls s @ [ForceUpdate]"
proof -
  let ?s1 = "snd (read_update_freq E s)"
  have b1: "broker ?s1 \<noteq> None" and c1: "calls ?s1 = calls s"
    using assms by (simp_all add: update_freq_fields)
  then obtain b' where b': "broker ?s1 = Some b'" by auto
  note bs = read_config_broker_Some[OF b', of E]
  show "broker (snd (read_config_defaults E s)) \<noteq> None"
    using b1 bs(1)
    by (simp add: read_config_defaults_def case_prod_beta input_cur_fields output_cur_fields
        logger_def split: option.splits sum.splits)
  show "calls (snd (read_config_defaults E s)) = calls s
         \<or> calls (snd (read_config_defaults E s)) = calls s @ [ForceUpdate]"
    using c1 bs(2)[of "app_id_setting (settings ?s1)"]
    by (auto simp: read_config_defaults_def case_prod_beta input_cur_fields output_cur_fields
        logger_def split: option.splits sum.splits)
qed

lemma read_separators_cong:
  "settings t = settings s \<Longrightarrow> read_separators t k d f = read_separators s k d f"
  by (simp add: read_separators_def)

lemma read_config_aliases_broker:
  assumes "broker s = Some b"
  shows "broker (read_config_aliases E s)
           = Some (b\<lparr>aliases := build_aliases E (aliases_setting (settings s))\<rparr>)"
  using assms by (simp add: read_config_aliases_def clear_aliases_def build_aliases_def)

lemma read_config_aliases_frame:
  "settings (read_config_aliases E s) = settings s"
  "items (read_config_aliases E s) = items s"
  "calls (read_config_aliases E s) = calls s"
  "parser (read_config_aliases E s) = parser s"
  by (simp_all add: read_config_aliases_def logger_def split: option.splits)

lemma read_config_aliases_logged:
  "broker s = Some b \<Longrightarrow> logged (read_config_aliases E s) = logged s"
  by (simp add: read_config_aliases_def)

lemma read_config_parser_frame:
  "broker (read_config_parser E a b s) = broker s"
  "settings (read_config_parser E a b s) = settings s"
  "items (read_config_parser E a b s) = items s"
  "calls (read_config_parser E a b s) = calls s"
  by (simp_all add: read_config_parser_def logger_def Let_def split: sum.splits)

lemma read_config_summary_frame:
  "broker (read_config_summary s) = broker s"
  "parser (read_config_summary s) = parser s"
  "settings (read_config_summary s) = settings s"
  "items (read_config_summary s) = items s"
  "calls (read_config_summary s) = calls s"
  by (simp_all add: read_config_summary_def logger_def)

lemma read_config_rest_frame:
  "settings (read_config_rest E s) = settings s"
  "items (read_config_rest E s) = items s"
  "calls (read_config_rest E s) = calls s"
  by (simp_all add: read_config_rest_def read_config_summary_frame read_config_parser_frame
      read_config_aliases_frame)

lemma read_config_rest_broker:
  assumes "broker s = Some b"
  shows "broker (read_config_rest E s)
           = Some (b\<lparr>aliases := build_aliases E (aliases_setting (settings s))\<rparr>)"
  by (simp add: read_config_rest_def read_config_summary_frame read_config_parser_frame
      read_config_aliases_broker[OF assms])

lemma read_config_Completed:
  assumes "fst (read_config_defaults E s) = Completed"
  shows "read_config E s = (None, read_config_rest E (snd (read_config_defaults E s)))"
  using assms by (simp add: read_config_def case_prod_beta)

lemma read_config_Some:
  assumes "broker s = Some b"
  shows "broker (snd (read_config E s)) \<noteq> None"
    and "calls (snd (read_config E s)) = calls s
         \<or> calls (snd (read_config E s)) = calls s @ [ForceUpdate]"
proof -
  obtain fl s1 where d: "read_config_defaults E s = (fl, s1)"
    by (cases "read_config_defaults E s")
  from read_config_defaults_Some[OF assms, of E] d
  obtain b1 where b1: "broker s1 = Some b1"
    and c1: "calls s1 = calls s \<or> calls s1 = calls s @ [ForceUpdate]"
    by auto
  show "broker (snd (read_config E s)) \<noteq> None"
    by (cases fl) (simp_all add: read_config_def d b1 read_config_rest_broker[OF b1])
  show "calls (snd (read_config E s)) = calls s
         \<or> calls (snd (read_config E s)) = calls s @ [ForceUpdate]"
    using c1 by (cases fl) (simp_all add: read_config_def d read_config_rest_frame)
qed

text \<open>A reload of a plugin that holds a broker, when the \<open>try\<close> block raises nothing:
  the settings were read, \<open>_read_config\<close> returned, and \<open>force_update\<close> ran at line 100
  exactly when a default currency differs from its value on entry.\<close>

lemma reload_body_None:
  assumes "broker s = Some b" and "fst (reload_body E reloaded s) = None"
  shows "\<exists>st b1. reloaded = Inr st
           \<and> fst (read_config E (s\<lparr>settings := st\<rparr>)) = None
           \<and> broker (snd (read_config E (s\<lparr>settings := st\<rparr>))) = Some b1
           \<and> (if default_cur_in b \<noteq> default_cur_in b1 \<or> default_curs_out b \<noteq> default_curs_out b1
               then calls (snd (reload_body E reloaded s))
                      = calls (snd (read_config E (s\<lparr>settings := st\<rparr>))) @ [ForceUpdate]
                    \<and> broker (snd (reload_body E reloaded s)) = Some (snd (force_update E b1))
               else calls (snd (reload_body E reloaded s))
                      = calls (snd (read_config E (s\<lparr>settings := st\<rparr>)))
                    \<and> broker (snd (reload_body E reloaded s)) = Some b1)"
proof -
  from assms(2) obtain st where st: "reloaded = Inr st"
    by (cases reloaded) (simp_all add: reload_body_def Let_def)
  let ?s0 = "s\<lparr>settings := st\<rparr>"
  obtain r s1 where rc: "read_config E ?s0 = (r, s1)"
    by (cases "read_config E ?s0")
  have "broker ?s0 = Some b" using assms(1) by simp
  from read_config_Some(1)[OF this, of E] rc obtain b1 where b1: "broker s1 = Some b1"
    by auto
  have r: "r = None"
    using assms(2) by (cases r) (simp_all add: reload_body_def Let_def st rc)
  show ?thesis
    using assms(1)
    by (simp add: reload_body_def Let_def st rc r b1 logger_def called_def case_prod_beta)
qed

lemma reload_settings_None:
  assumes "fst (reload_body E reloaded s) = None"
  shows "reload_settings E reloaded s = (None, snd (reload_body E reloaded s))"
  using assms by (simp add: reload_settings_def case_prod_beta)

text \<open>A reload, step by step, on a plugin that holds a broker.\<close>

lemma read_update_freq_None:
  assumes "fst (read_update_freq E s) = None"
  shows "snd (read_update_freq E s)
           = s\<lparr>self_update_freq :=
                  Some (case UpdateFreq E (update_freq_setting (settings s)) of
                          Inr f \<Rightarrow> f
                        | Inl e \<Rightarrow> Freq ''daily'')\<rparr>"
  using assms
  by (auto simp: read_update_freq_def UpdateFreq_def split: sum.splits if_splits)

lemma read_update_freq_Some:
  assumes "fst (read_update_freq E s) = Some e"
  shows "fst (read_config E s) = Some e"
  using assms
  by (simp add: read_config_def read_config_defaults_def case_prod_beta split: option.splits)

lemma read_config_broker_reload_calls:
  assumes "broker s = Some b" and "update_freq b = Some bf" and "cache_path E = Inr d"
  shows "calls (snd (read_config_broker E s k))
           = calls s @ (if Some bf \<noteq> self_update_freq s
                           \<or> (case expensive_service b of
                                 None \<Rightarrow> False
                               | Some svc \<Rightarrow> app_id svc \<noteq> k)
                        then [ForceUpdate] else [])"
  using assms
  by (simp add: read_config_broker_def Let_def logger_def called_def case_prod_beta
      split: option.splits)

lemma read_config_broker_reload_same:
  assumes "broker s = Some b" and "update_freq b = Some bf" and "cache_path E = Inr d"
    and "self_update_freq s = Some bf"
    and "case expensive_service b of None \<Rightarrow> True | Some svc \<Rightarrow> app_id svc = k"
  shows "fst (read_config_broker E s k) = Inr False"
    and "broker (snd (read_config_broker E s k)) = Some (b\<lparr>aliases := [], error := None\<rparr>)"
  using assms
  by (simp_all add: read_config_broker_def Let_def logger_def clear_aliases_def
      split: option.splits)

lemma read_config_input_cur_same:
  assumes "broker s = Some b" and "default_cur_in b = Some cin"
    and "map_option py_strip (input_cur_setting (settings s) (Some cin)) = Some cin"
  shows "fst (read_config_input_cur E False s) = None"
    and "broker (snd (read_config_input_cur E False s)) = Some b"
  using assms
  by (auto simp: read_config_input_cur_def input_cur_body_def getattr_cur_in_def Let_def
      logger_def split: option.splits)

lemma read_config_output_cur_same:
  assumes "broker s = Some b" and "default_curs_out b = Some outs"
    and "py_join '' '' outs = output_cur_setting (settings s)"
  shows "fst (read_config_output_cur E False s) = None"
    and "broker (snd (read_config_output_cur E False s)) = Some b"
  using assms
  by (simp_all add: read_config_output_cur_def output_cur_body_def getattr_curs_out_def Let_def
      logger_def)

lemma read_config_defaults_reload_calls:
  assumes "broker s = Some b" and "update_freq b = Some bf" and "cache_path E = Inr d"
    and "fst (read_update_freq E s) = None"
  shows "calls (snd (read_config_defaults E s))
           = calls s @ (if Some bf \<noteq> Some (case UpdateFreq E (update_freq_setting (settings s)) of
                                            Inr f \<Rightarrow> f
                                          | Inl e \<Rightarrow> Freq ''daily'')
                           \<or> (case expensive_service b of
                                 None \<Rightarrow> False
                               | Some svc \<Rightarrow> app_id svc \<noteq> app_id_setting (settings s))
                        then [ForceUpdate] else [])"
proof -
  let ?s1 = "snd (read_update_freq E s)"
  have s1: "?s1 = s\<lparr>self_update_freq :=
                       Some (case UpdateFreq E (update_freq_setting (settings s)) of
                               Inr f \<Rightarrow> f
                             | Inl e \<Rightarrow> Freq ''daily'')\<rparr>"
    by (rule read_update_freq_None[OF assms(4)])
  have b1: "broker ?s1 = Some b" and c1: "calls ?s1 = calls s" and t1: "settings ?s1 = settings s"
    and f1: "self_update_freq ?s1 = Some (case UpdateFreq E (update_freq_setting (settings s)) of
                                            Inr f \<Rightarrow> f
                                          | Inl e \<Rightarrow> Freq ''daily'')"
    using assms(1) by (simp_all add: s1)
  have "calls (snd (read_config_defaults E s))
          = calls (snd (read_config_broker E ?s1 (app_id_setting (settings ?s1))))"
    using assms(4)
    by (simp add: read_config_defaults_def case_prod_beta input_cur_fields output_cur_fields
        logger_def split: option.splits sum.splits)
  then show ?thesis
    by (simp only: read_config_broker_reload_calls[OF b1 assms(2,3)] c1 t1 f1)
qed

lemma read_config_calls:
  "calls (snd (read_config E s)) = calls (snd (read_config_defaults E s))"
  by (cases "fst (read_config_defaults E s)")
     (simp_all add: read_config_def case_prod_beta read_config_rest_frame)

text \<open>\<open>_read_config\<close> on a plugin whose broker already agrees with the settings: only the
  aliases and the recorded error change.\<close>

lemma read_config_unchanged:
  assumes "broker s = Some b" and "update_freq b = Some bf" and "cache_path E = Inr d"
    and "fst (read_update_freq E s) = None"
    and "(case UpdateFreq E (update_freq_setting (settings s)) of
            Inr f \<Rightarrow> f
          | Inl e \<Rightarrow> Freq ''daily'') = bf"
    and "case expensive_service b of
           None \<Rightarrow> True
         | Some svc \<Rightarrow> app_id svc = app_id_setting (settings s)"
    and "default_cur_in b = Some cin"
    and "map_option py_strip (input_cur_setting (settings s) (Some cin)) = Some cin"
    and "default_curs_out b = Some outs"
    and "py_join '' '' outs = output_cur_setting (settings s)"
  shows "fst (read_config E s) = None"
    and "broker (snd (read_config E s))
           = Some (b\<lparr>aliases := build_aliases E (aliases_setting (settings s)), error := None\<rparr>)"
proof -
  let ?s1 = "snd (read_update_freq E s)"
  let ?k = "app_id_setting (settings ?s1)"
  let ?s2 = "snd (read_config_broker E ?s1 ?k)"
  let ?s3 = "snd (read_config_input_cur E False ?s2)"
  let ?s4 = "snd (read_config_output_cur E False ?s3)"
  let ?b = "b\<lparr>aliases := [], error := None\<rparr>"
  have s1: "?s1 = s\<lparr>self_update_freq := Some bf\<rparr>"
    using read_update_freq_None[OF assms(4)] assms(5) by simp
  have b1: "broker ?s1 = Some b" and f1: "self_update_freq ?s1 = Some bf"
    and t1: "settings ?s1 = settings s"
    using assms(1) by (simp_all add: s1)
  have k1: "case expensive_service b of None \<Rightarrow> True | Some svc \<Rightarrow> app_id svc = ?k"
    using assms(6) by (simp add: t1 cong: option.case_cong)
  note rb = read_config_broker_reload_same[OF b1 assms(2,3) f1 k1]
  have t2: "settings ?s2 = settings s"
    by (simp add: read_config_broker_frame t1)
  have i: "fst (read_config_input_cur E False ?s2) = None" "broker ?s3 = Some ?b"
    using read_config_input_cur_same[OF rb(2), of cin E] assms(7,8) by (simp_all add: t2)
  have t3: "settings ?s3 = settings s"
    by (simp add: input_cur_fields t2)
  have o: "fst (read_config_output_cur E False ?s3) = None" "broker ?s4 = Some ?b"
    using read_config_output_cur_same[OF i(2), of outs E] assms(9,10) by (simp_all add: t3)
  have t4: "settings ?s4 = settings s"
    by (simp add: output_cur_fields t3)
  have d: "read_config_defaults E s = (Completed, ?s4)"
    by (simp add: read_config_defaults_def case_prod_beta assms(4) rb(1) i(1) o(1))
  then have c: "fst (read_config_defaults E s) = Completed" by simp
  show "fst (read_config E s) = None"
    by (simp add: read_config_Completed[OF c])
  show "broker (snd (read_config E s))
          = Some (b\<lparr>aliases := build_aliases E (aliases_setting (settings s)), error := None\<rparr>)"
    by (simp add: read_config_Completed[OF c] d read_config_rest_broker[OF o(2)] t4)
qed

lemma read_config_Completed_broker:
  assumes "fst (read_config_defaults E s) = Completed"
  shows "fst (read_config E s) = None"
    and "broker (snd (read_config E s)) \<noteq> None"
    and "map_option default_cur_in (broker (snd (read_config E s)))
           = map_option default_cur_in (broker (snd (read_config_defaults E s)))"
    and "map_option default_curs_out (broker (snd (read_config E s)))
           = map_option default_curs_out (broker (snd (read_config_defaults E s)))"
proof -
  obtain b4 where b4: "broker (snd (read_config_defaults E s)) = Some b4"
    using read_config_defaults_Completed[OF assms] by auto
  note rc = read_config_Completed[OF assms] read_config_rest_broker[OF b4]
  show "fst (read_config E s) = None" by (simp add: rc)
  show "broker (snd (read_config E s)) \<noteq> None" by (simp add: rc)
  show "map_option default_cur_in (broker (snd (read_config E s)))
           = map_option default_cur_in (broker (snd (read_config_defaults E s)))"
    by (simp add: rc b4)
  show "map_option default_curs_out (broker (snd (read_config E s)))
           = map_option default_curs_out (broker (snd (read_config_defaults E s)))"
    by (simp add: rc b4)
qed

text \<open>The \<open>try\<close> block of \<open>reload_settings\<close> raises nothing when \<open>_read_config\<close> returns and
  \<open>force_update\<close> never raises.\<close>

lemma reload_body_returns:
  assumes "broker s = Some b" and "fst (read_config E (s\<lparr>settings := st\<rparr>)) = None"
    and "\<And>x. fst (force_update E x) = None"
  shows "fst (reload_body E (Inr st) s) = None"
proof -
  obtain r s1 where rc: "read_config E (s\<lparr>settings := st\<rparr>) = (r, s1)"
    by (cases "read_config E (s\<lparr>settings := st\<rparr>)")
  with assms(2) have r: "r = None" by simp
  show ?thesis
    using assms(1,3)
    by (simp add: reload_body_def Let_def rc r case_prod_beta split: option.splits)
qed


text \<open>A reload with settings that agree with the broker.\<close>

lemma reload_unchanged:
  assumes "broker s = Some b" and "update_freq b = Some bf" and "cache_path E = Inr d"
    and "fst (read_update_freq E (s\<lparr>settings := st\<rparr>)) = None"
    and "(case UpdateFreq E (update_freq_setting st) of
            Inr f \<Rightarrow> f
          | Inl e \<Rightarrow> Freq ''daily'') = bf"
    and "case expensive_service b of
           None \<Rightarrow> True
         | Some svc \<Rightarrow> app_id svc = app_id_setting st"
    and "default_cur_in b = Some cin"
    and "map_option py_strip (input_cur_setting st (Some cin)) = Some cin"
    and "default_curs_out b = Some outs"
    and "py_join '' '' outs = output_cur_setting st"
  shows "fst (reload_body E (Inr st) s) = None"
    and "calls (snd (reload_settings E (Inr st) s)) = calls s"
    and "broker (snd (reload_settings E (Inr st) s))
           = Some (b\<lparr>aliases := build_aliases E (aliases_setting st), error := None\<rparr>)"
proof -
  let ?s0 = "s\<lparr>settings := st\<rparr>"
  have b0: "broker ?s0 = Some b" using assms(1) by simp
  have k: "case expensive_service b of
             None \<Rightarrow> True
           | Some svc \<Rightarrow> app_id svc = app_id_setting (settings ?s0)"
    using assms(6) by (simp cong: option.case_cong)
  have rc: "fst (read_config E ?s0) = None"
    "broker (snd (read_config E ?s0))
       = Some (b\<lparr>aliases := build_aliases E (aliases_setting st), error := None\<rparr>)"
    using read_config_unchanged[OF b0 assms(2,3,4) _ k assms(7) _ assms(9)]
      assms(5,8,10) by simp_all
  obtain r s1 where p: "read_config E ?s0 = (r, s1)"
    by (cases "read_config E ?s0")
  with rc have r: "r = None"
    and b1: "broker s1 = Some (b\<lparr>aliases := build_aliases E (aliases_setting st), error := None\<rparr>)"
    by simp_all
  have body: "reload_body E (Inr st) s = (None, s1)"
    using assms(1) by (simp add: reload_body_def Let_def p r b1)
  show n: "fst (reload_body E (Inr st) s) = None"
    by (simp add: body)
  have c: "calls s1 = calls s"
    using read_config_defaults_reload_calls[OF b0 assms(2,3,4)] assms(5) k p
      read_config_calls[of E ?s0]
    by (auto split: option.splits)
  show "calls (snd (reload_settings E (Inr st) s)) = calls s"
    by (simp add: reload_settings_None[OF n] body c)
  show "broker (snd (reload_settings E (Inr st) s))
          = Some (b\<lparr>aliases := build_aliases E (aliases_setting st), error := None\<rparr>)"
    by (simp add: reload_settings_None[OF n] body b1)
qed

section \<open>The claims\<close>

subsection \<open>C1: a recorded fetch error\<close>

text \<open>
  Claim C1, as amended. Take a query that is a direct request and parses to a request
  with sources and destinations, on a plugin that holds a broker whose \<open>tryUpdate\<close>
  returns normally and leaves an error recorded. Then \<open>query\<close> performs no conversion:
  \<open>convert\<close> is not called and no result item is added. When \<open>tryUpdate\<close> returned False,
  or \<open>_update_update_item\<close> (called at line 35 when it returned True, and defined nowhere
  in currencypp.py) returns normally, \<open>query\<close> adds the single item "Webservice failed"
  with the error as subtitle and returns at once, without the update-status item. When
  \<open>tryUpdate\<close> returned True and \<open>_update_update_item\<close> raises, line 37 is not reached: a
  CurrencyError is logged and nothing is shown, any other exception is shown as the item
  "Error" followed by the update-status item.
\<close>

theorem fetch_error_stops_query:
  assumes "fst (parse_and_merge_input E s u True) = Inr q1"
    and "is_direct_request q1 = Inr True"
    and "fst (parse_and_merge_input E s u False) = Inr q"
    and "destinations q \<noteq> Missing" and "destinations q \<noteq> PyNone"
    and "sources q \<noteq> Missing" and "sources q \<noteq> PyNone"
    and "broker s = Some b" and "tryUpdate E b = (Inr updated, b1)"
    and "error b1 = Some err" and "err \<noteq> []"
  shows "fst (query E s u) = None
       \<and> calls (snd (query E s u)) = calls s @ [TryUpdate]
       \<and> broker (snd (query E s u)) = Some b1
       \<and> items (snd (query E s u)) = items s @
           (case (if updated then update_update_item E else None) of
              None \<Rightarrow> [Item ''Webservice failed'' err None NoAction None False]
            | Some e \<Rightarrow>
                if is_CurrencyError e then []
                else [Item ''Error'' (''An error occurred: '' @ exn_str e) None NoAction None False,
                      Item ''Update Currency'' (''Last updated at '' @ last_update b1) None
                        (UpdateRates u) None True])"
proof -
  let ?s0 = "logger Debug ''Processing query: {user_input}'' s"
  obtain r1 s1 where e1: "parse_and_merge_input E ?s0 u True = (r1, s1)"
    by (cases "parse_and_merge_input E ?s0 u True")
  obtain r2 s2 where e2: "parse_and_merge_input E s1 u False = (r2, s2)"
    by (cases "parse_and_merge_input E s1 u False")
  have r1: "r1 = Inr q1"
    using pami_fst_logger[of E Debug "''Processing query: {user_input}''" s u True] e1 assms(1)
    by simp
  have s1: "broker s1 = broker s" "parser s1 = parser s" "items s1 = items s" "calls s1 = calls s"
    using pami_snd_fields[of E ?s0 u True] e1 by (simp_all add: logger_def)
  have "fst (parse_and_merge_input E s1 u False) = fst (parse_and_merge_input E s u False)"
    by (rule pami_fst_cong) (simp_all add: s1)
  then have r2: "r2 = Inr q"
    using e2 assms(3) by simp
  have s2: "broker s2 = Some b" "items s2 = items s" "calls s2 = calls s"
    using pami_snd_fields[of E s1 u False] e2 s1 assms(8) by simp_all
  let ?s3 = "called TryUpdate (s2\<lparr>broker := Some b1\<rparr>)"
  have body: "query_body E ?s0 u
                = (case (if updated then update_update_item E else None) of
                     None \<Rightarrow> (Returned,
                              add_item (Item ''Webservice failed'' err None NoAction None False) ?s3)
                   | Some e \<Rightarrow> (Raised e, ?s3))"
    using assms(2,4-7,9-11)
    by (simp add: query_body_def e1 r1 e2 r2 s2 truthy_def split: option.splits)
  show ?thesis
    unfolding query_def body
    by (simp add: add_item_def called_def logger_def update_status_def s2 split: option.splits)
qed

theorem fetch_error_stops_query_witness:
  "items (snd (query sample_env
                 (sample_plugin\<lparr>broker := Some (sample_broker\<lparr>error := Some ''timeout''\<rparr>)\<rparr>) ''100''))
     = [Item ''Webservice failed'' ''timeout'' None NoAction None False]
   \<and> calls (snd (query sample_env
                 (sample_plugin\<lparr>broker := Some (sample_broker\<lparr>error := Some ''timeout''\<rparr>)\<rparr>) ''100''))
     = [TryUpdate]
   \<and> items (snd (query (sample_env\<lparr>tryUpdate := \<lambda>b. (Inr True, b\<lparr>error := Some ''timeout''\<rparr>),
                                     update_update_item := Some (AttributeError ''_update_update_item'')\<rparr>)
                 sample_plugin ''100''))
     = [Item ''Error'' ''An error occurred: _update_update_item'' None NoAction None False,
        Item ''Update Currency'' ''Last updated at 2024-01-01T00:00:00'' None (UpdateRates ''100'')
          None True]
   \<and> calls (snd (query (sample_env\<lparr>tryUpdate := \<lambda>b. (Inr True, b\<lparr>error := Some ''timeout''\<rparr>),
                                     update_update_item := Some (AttributeError ''_update_update_item'')\<rparr>)
                 sample_plugin ''100''))
     = [TryUpdate]"
proof -
  let ?b = "sample_broker\<lparr>error := Some ''timeout''\<rparr>"
  let ?s = "sample_plugin\<lparr>broker := Some ?b\<rparr>"
  let ?E = "sample_env\<lparr>tryUpdate := \<lambda>b. (Inr True, b\<lparr>error := Some ''timeout''\<rparr>),
                        update_update_item := Some (AttributeError ''_update_update_item'')\<rparr>"
  let ?q = "filled_request (Some ''USD'') (Finite 100) [''EUR'', ''JPY'']"
  have p: "fst (parse_and_merge_input sample_env ?s ''100'' f) = Inr ?q" for f
    by (simp add: pami_fst sample_strip sample_env_def sample_float_def sample_plugin_def
        sample_broker_def)
  have p': "fst (parse_and_merge_input ?E sample_plugin ''100'' f) = Inr ?q" for f
    by (simp add: pami_fst sample_strip sample_env_def sample_float_def sample_plugin_def
        sample_broker_def)
  have d: "is_direct_request ?q = Inr True"
    by (simp add: is_direct_request_def filled_request_def)
  have f: "destinations ?q \<noteq> Missing" "destinations ?q \<noteq> PyNone"
          "sources ?q \<noteq> Missing" "sources ?q \<noteq> PyNone"
    by (simp_all add: filled_request_def)
  have b: "broker ?s = Some ?b" by simp
  have b': "broker sample_plugin = Some sample_broker" by (simp add: sample_plugin_def)
  have t: "tryUpdate sample_env ?b = (Inr False, ?b)"
    by (simp add: sample_env_def sample_tryUpdate_def)
  have t': "tryUpdate ?E sample_broker = (Inr True, ?b)" by simp
  have e: "error ?b = Some ''timeout''" "''timeout'' \<noteq> []" by simp_all
  show ?thesis
    using fetch_error_stops_query[OF p[of True] d p[of False] f b t e]
          fetch_error_stops_query[OF p'[of True] d p'[of False] f b' t' e]
    by (simp add: sample_plugin_def sample_broker_def)
qed

text \<open>The claim as stated fails: with the error "timeout" recorded and rates for USD, EUR
  and JPY still cached, the query "100" yields the "Webservice failed" item only, and
  \<open>convert\<close> is never called, although it would have produced two results.\<close>

theorem fetch_error_no_conversion_counterexample:
  "error (sample_broker\<lparr>error := Some ''timeout''\<rparr>) = Some ''timeout''
   \<and> convert sample_env (sample_broker\<lparr>error := Some ''timeout''\<rparr>)
        \<lparr>sources = Val [\<lparr>currency = Some ''USD'', amount = Some (Finite 100)\<rparr>],
         destinations = Val [\<lparr>currency = Some ''EUR'', amount = None\<rparr>,
                             \<lparr>currency = Some ''JPY'', amount = None\<rparr>],
         extra = PyNone\<rparr>
       = Inr [ConvResult ''EUR'' ''EUR'' (Finite 90), ConvResult ''JPY'' ''JPY'' (Finite 15000)]
   \<and> fst (query sample_env
             (sample_plugin\<lparr>broker := Some (sample_broker\<lparr>error := Some ''timeout''\<rparr>)\<rparr>) ''100'')
       = None
   \<and> items (snd (query sample_env
                  (sample_plugin\<lparr>broker := Some (sample_broker\<lparr>error := Some ''timeout''\<rparr>)\<rparr>) ''100''))
       = [Item ''Webservice failed'' ''timeout'' None NoAction None False]
   \<and> Convert \<notin> set (calls (snd (query sample_env
                  (sample_plugin\<lparr>broker := Some (sample_broker\<lparr>error := Some ''timeout''\<rparr>)\<rparr>) ''100'')))"
proof -
  let ?b = "sample_broker\<lparr>error := Some ''timeout''\<rparr>"
  let ?s = "sample_plugin\<lparr>broker := Some ?b\<rparr>"
  let ?s0 = "logger Debug ''Processing query: {user_input}'' ?s"
  let ?q = "filled_request (Some ''USD'') (Finite 100) [''EUR'', ''JPY'']"
  have c: "convert sample_env ?b ?q
             = Inr [ConvResult ''EUR'' ''EUR'' (Finite 90), ConvResult ''JPY'' ''JPY'' (Finite 15000)]"
    by (simp add: sample_env_def sample_convert_def filled_request_def source_entry_def
        dest_entry_def sample_broker_def)
  have p: "parse_and_merge_input sample_env ?s0 ''100'' f = (Inr ?q, ?s0)" for f
    by (simp add: parse_and_merge_input_def base_query_def sample_strip sample_env_def
        sample_float_def sample_plugin_def sample_broker_def logger_def Let_def template_request_def
        filled_request_def)
  have d: "is_direct_request ?q = Inr True"
    by (simp add: is_direct_request_def filled_request_def)
  have f: "destinations ?q \<noteq> Missing" "destinations ?q \<noteq> PyNone"
          "sources ?q \<noteq> Missing" "sources ?q \<noteq> PyNone"
    by (simp_all add: filled_request_def)
  have bs: "broker ?s0 = Some ?b" by (simp add: logger_def)
  have t: "tryUpdate sample_env ?b = (Inr False, ?b)"
    by (simp add: sample_env_def sample_tryUpdate_def)
  have body: "query_body sample_env ?s0 ''100''
                = (Returned,
                   add_item (Item ''Webservice failed'' ''timeout'' None NoAction None False)
                     (called TryUpdate (?s0\<lparr>broker := Some ?b\<rparr>)))"
    by (simp add: query_body_def p d f bs t truthy_def Let_def)
  have q: "?q = \<lparr>sources = Val [\<lparr>currency = Some ''USD'', amount = Some (Finite 100)\<rparr>],
                 destinations = Val [\<lparr>currency = Some ''EUR'', amount = None\<rparr>,
                                     \<lparr>currency = Some ''JPY'', amount = None\<rparr>],
                 extra = PyNone\<rparr>"
    by (simp add: filled_request_def source_entry_def dest_entry_def)
  show ?thesis
    unfolding query_def body
    using c by (simp add: q add_item_def called_def logger_def sample_plugin_def)
qed

subsection \<open>C2: the broker is not reconstructed\<close>




subsection \<open>C3: what a reload changes\<close>

text \<open>
  Claim C3, as amended. Take a reload on a plugin that holds a broker with an update
  frequency, with a cache directory that can be created and a \<open>try\<close> block that raises
  nothing. Then \<open>force_update\<close> is called once inside \<open>_read_config\<close> exactly when the
  configured update frequency differs from the broker's or the broker has a service
  whose API key differs from the configured one, and once more at line 100 exactly when
  a default currency of the broker differs after \<open>_read_config\<close> from its value before;
  it is called at no other point. If frequency and key are unchanged and the configured
  input and output currencies are the broker's, \<open>force_update\<close> is not called and the
  reload leaves the broker as it was but for two fields: the aliases are rebuilt, and the
  recorded error is reset to \<open>None\<close>. So the default currencies, the rates and
  \<open>last_update\<close> are unchanged, the error of the rate table is not.
\<close>

theorem reload_force_update:
  assumes "broker s = Some b" and "update_freq b = Some bf" and "cache_path E = Inr d"
    and "fst (reload_body E (Inr st) s) = None"
  shows "\<exists>b1. broker (snd (read_config E (s\<lparr>settings := st\<rparr>))) = Some b1
          \<and> fst (reload_settings E (Inr st) s) = None
          \<and> calls (snd (reload_settings E (Inr st) s))
              = calls s
                @ (if (case UpdateFreq E (update_freq_setting st) of
                         Inr f \<Rightarrow> f
                       | Inl e \<Rightarrow> Freq ''daily'') \<noteq> bf
                      \<or> (case expensive_service b of
                            None \<Rightarrow> False
                          | Some svc \<Rightarrow> app_id svc \<noteq> app_id_setting st)
                   then [ForceUpdate] else [])
                @ (if default_cur_in b1 \<noteq> default_cur_in b \<or> default_curs_out b1 \<noteq> default_curs_out b
                   then [ForceUpdate] else [])
          \<and> ((case UpdateFreq E (update_freq_setting st) of
                 Inr f \<Rightarrow> f
               | Inl e \<Rightarrow> Freq ''daily'') = bf
              \<and> (case expensive_service b of
                    None \<Rightarrow> True
                  | Some svc \<Rightarrow> app_id svc = app_id_setting st)
              \<and> default_cur_in b = Some cin
              \<and> map_option py_strip (input_cur_setting st (Some cin)) = Some cin
              \<and> default_curs_out b = Some outs
              \<and> py_join '' '' outs = output_cur_setting st
              \<longrightarrow> calls (snd (reload_settings E (Inr st) s)) = calls s
                  \<and> broker (snd (reload_settings E (Inr st) s))
                      = Some (b\<lparr>aliases :=
                                   fold (alias_line E) (py_splitlines (aliases_setting st)) [],
                                 error := None\<rparr>))"
proof -
  let ?s0 = "s\<lparr>settings := st\<rparr>"
  let ?newf = "case UpdateFreq E (update_freq_setting st) of Inr f \<Rightarrow> f | Inl e \<Rightarrow> Freq ''daily''"
  have b0: "broker ?s0 = Some b" using assms(1) by simp
  from reload_body_None[OF assms(1) assms(4)] obtain b1 where
    rc: "fst (read_config E ?s0) = None"
    and b1: "broker (snd (read_config E ?s0)) = Some b1"
    and f: "if default_cur_in b \<noteq> default_cur_in b1 \<or> default_curs_out b \<noteq> default_curs_out b1
            then calls (snd (reload_body E (Inr st) s)) = calls (snd (read_config E ?s0)) @ [ForceUpdate]
                 \<and> broker (snd (reload_body E (Inr st) s)) = Some (snd (force_update E b1))
            else calls (snd (reload_body E (Inr st) s)) = calls (snd (read_config E ?s0))
                 \<and> broker (snd (reload_body E (Inr st) s)) = Some b1"
    by auto
  have rs: "reload_settings E (Inr st) s = (None, snd (reload_body E (Inr st) s))"
    by (rule reload_settings_None[OF assms(4)])
  have uf: "fst (read_update_freq E ?s0) = None"
  proof (cases "fst (read_update_freq E ?s0)")
    case (Some e)
    from read_update_freq_Some[OF this] rc show ?thesis by simp
  qed simp
  have c0: "calls (snd (read_config E ?s0))
              = calls s @ (if ?newf \<noteq> bf
                              \<or> (case expensive_service b of
                                    None \<Rightarrow> False
                                  | Some svc \<Rightarrow> app_id svc \<noteq> app_id_setting st)
                           then [ForceUpdate] else [])"
    using read_config_defaults_reload_calls[OF b0 assms(2,3) uf]
    by (auto simp: read_config_calls cong: option.case_cong)
  have calls: "calls (snd (reload_settings E (Inr st) s))
              = calls s
                @ (if ?newf \<noteq> bf
                      \<or> (case expensive_service b of
                            None \<Rightarrow> False
                          | Some svc \<Rightarrow> app_id svc \<noteq> app_id_setting st)
                   then [ForceUpdate] else [])
                @ (if default_cur_in b1 \<noteq> default_cur_in b \<or> default_curs_out b1 \<noteq> default_curs_out b
                   then [ForceUpdate] else [])"
    using f by (auto simp: rs c0 split: if_splits)
  have same: "calls (snd (reload_settings E (Inr st) s)) = calls s
            \<and> broker (snd (reload_settings E (Inr st) s))
                = Some (b\<lparr>aliases := fold (alias_line E) (py_splitlines (aliases_setting st)) [],
                          error := None\<rparr>)"
    if h: "?newf = bf"
      "case expensive_service b of None \<Rightarrow> True | Some svc \<Rightarrow> app_id svc = app_id_setting st"
      "default_cur_in b = Some cin"
      "map_option py_strip (input_cur_setting st (Some cin)) = Some cin"
      "default_curs_out b = Some outs"
      "py_join '' '' outs = output_cur_setting st"
  proof -
    have "broker (snd (read_config E ?s0))
            = Some (b\<lparr>aliases := build_aliases E (aliases_setting (settings ?s0)), error := None\<rparr>)"
      using h by (intro read_config_unchanged(2)[OF b0 assms(2,3) uf, of cin outs])
        (simp_all cong: option.case_cong)
    with b1 have e: "b1 = b\<lparr>aliases := fold (alias_line E) (py_splitlines (aliases_setting st)) [],
                             error := None\<rparr>"
      by (simp add: build_aliases_def)
    have k: "\<not> (case expensive_service b of None \<Rightarrow> False | Some svc \<Rightarrow> app_id svc \<noteq> app_id_setting st)"
      using h(2) by (simp split: option.splits)
    show ?thesis
      using f calls h(1) k by (simp add: e rs)
  qed
  show ?thesis
    using b1 calls same by (intro exI[of _ b1]) (simp add: rs)
qed

theorem reload_force_update_witness:
  "calls (snd (reload_settings sample_env (Inr sample_settings) sample_plugin)) = []
   \<and> broker (snd (reload_settings sample_env (Inr sample_settings) sample_plugin))
       = Some sample_broker
   \<and> calls (snd (reload_settings sample_env (Inr (sample_settings(''update_freq'' \<mapsto> Str ''hourly'')))
                    sample_plugin)) = [ForceUpdate]
   \<and> calls (snd (reload_settings sample_env (Inr (sample_settings(''input_cur'' \<mapsto> Str ''gbp'')))
                    sample_plugin)) = [ForceUpdate]"
proof -
  let ?hourly = "sample_settings(''update_freq'' \<mapsto> Str ''hourly'')"
  let ?gbp = "sample_settings(''input_cur'' \<mapsto> Str ''gbp'')"
  have a: "broker sample_plugin = Some sample_broker" by (simp add: sample_plugin_def)
  have b: "update_freq sample_broker = Some (Freq ''daily'')" by (simp add: sample_broker_def)
  have c: "cache_path sample_env = Inr ''cache''" by (simp add: sample_env_def)
  have fu: "fst (force_update sample_env x) = None" for x
    by (simp add: sample_env_def sample_force_update_def)
  have d: "fst (read_config_defaults sample_env (sample_plugin\<lparr>settings := sample_settings\<rparr>))
             = Completed"
    "fst (read_config_defaults sample_env (sample_plugin\<lparr>settings := ?hourly\<rparr>)) = Completed"
    "fst (read_config_defaults sample_env (sample_plugin\<lparr>settings := ?gbp\<rparr>)) = Completed"
    by code_simp+
  note n = reload_body_returns[OF a read_config_Completed_broker(1)[OF d(1)] fu]
    reload_body_returns[OF a read_config_Completed_broker(1)[OF d(2)] fu]
    reload_body_returns[OF a read_config_Completed_broker(1)[OF d(3)] fu]
  have f: "UpdateFreq sample_env (update_freq_setting sample_settings) = Inr (Freq ''daily'')"
    "UpdateFreq sample_env (update_freq_setting ?hourly) = Inr (Freq ''hourly'')"
    "UpdateFreq sample_env (update_freq_setting ?gbp) = Inr (Freq ''daily'')"
    by code_simp+
  have k: "app_id_setting sample_settings = ''key''" "app_id_setting ?hourly = ''key''"
    "app_id_setting ?gbp = ''key''"
    by code_simp+
  have i: "map_option py_strip (input_cur_setting sample_settings (Some ''USD'')) = Some ''USD''"
    by code_simp
  have out: "output_cur_setting sample_settings = ''EUR JPY''"
    "py_join '' '' [''EUR'', ''JPY''] = ''EUR JPY''"
    by code_simp+
  have al: "fold (alias_line sample_env) (py_splitlines (aliases_setting sample_settings)) []
              = [(''EURO'', ''EUR'')]"
    by code_simp
  have h0: "map_option default_cur_in
              (broker (snd (read_config_defaults sample_env (sample_plugin\<lparr>settings := ?hourly\<rparr>))))
              = Some (Some ''USD'')"
    "map_option default_curs_out
       (broker (snd (read_config_defaults sample_env (sample_plugin\<lparr>settings := ?hourly\<rparr>))))
       = Some (Some [''EUR'', ''JPY''])"
    "map_option default_cur_in
       (broker (snd (read_config_defaults sample_env (sample_plugin\<lparr>settings := ?gbp\<rparr>))))
       = Some (Some ''GBP'')"
    by code_simp+
  have h: "map_option default_cur_in
             (broker (snd (read_config sample_env (sample_plugin\<lparr>settings := ?hourly\<rparr>))))
             = Some (Some ''USD'')"
    "map_option default_curs_out
       (broker (snd (read_config sample_env (sample_plugin\<lparr>settings := ?hourly\<rparr>))))
       = Some (Some [''EUR'', ''JPY''])"
    "map_option default_cur_in
       (broker (snd (read_config sample_env (sample_plugin\<lparr>settings := ?gbp\<rparr>))))
       = Some (Some ''GBP'')"
    by (simp_all only: read_config_Completed_broker(3,4)[OF d(2)]
        read_config_Completed_broker(3,4)[OF d(3)] h0)
  have e: "sample_broker\<lparr>aliases := [(''EURO'', ''EUR'')], error := None\<rparr> = sample_broker"
    by (simp add: sample_broker_def)
  have cs: "calls sample_plugin = []" by (simp add: sample_plugin_def)
  have dd: "default_cur_in sample_broker = Some ''USD''"
    "default_curs_out sample_broker = Some [''EUR'', ''JPY'']"
    "expensive_service sample_broker = Some \<lparr>app_id = ''key''\<rparr>"
    by (simp_all add: sample_broker_def)
  from reload_force_update[OF a b c n(1), of "''USD''" "[''EUR'', ''JPY'']"]
  have 1: "calls (snd (reload_settings sample_env (Inr sample_settings) sample_plugin)) = []
         \<and> broker (snd (reload_settings sample_env (Inr sample_settings) sample_plugin))
             = Some sample_broker"
    by (auto simp: f k i out al e cs dd)
  from reload_force_update[OF a b c n(2)] h(1,2)
  have 2: "calls (snd (reload_settings sample_env (Inr ?hourly) sample_plugin)) = [ForceUpdate]"
    by (auto simp: f k cs dd)
  from reload_force_update[OF a b c n(3)] h(3)
  have 3: "calls (snd (reload_settings sample_env (Inr ?gbp) sample_plugin)) = [ForceUpdate]"
    by (auto simp: f k cs dd)
  from 1 2 3 show ?thesis by simp
qed

text \<open>The claim as stated fails for the rate table's error: a reload with settings that
  agree with the broker in frequency, key and currencies calls \<open>force_update\<close> not once and
  leaves currencies, rates and \<open>last_update\<close> alone, but the error the broker had
  recorded is gone (line 252).\<close>

theorem reload_clears_error_counterexample:
  "UpdateFreq sample_env (update_freq_setting sample_settings) = Inr (Freq ''daily'')
   \<and> app_id_setting sample_settings = ''key''
   \<and> map_option py_strip (input_cur_setting sample_settings None) = Some ''USD''
   \<and> output_cur_setting sample_settings = ''EUR JPY''
   \<and> sample_broker\<lparr>error := Some ''timeout''\<rparr>
       = \<lparr>default_cur_in = Some ''USD'', default_curs_out = Some [''EUR'', ''JPY''],
          update_freq = Some (Freq ''daily''), expensive_service = Some \<lparr>app_id = ''key''\<rparr>,
          aliases = [(''EURO'', ''EUR'')], error = Some ''timeout'',
          last_update = ''2024-01-01T00:00:00'',
          rates = [(''USD'', 1), (''EUR'', 9 / 10), (''JPY'', 150)]\<rparr>
   \<and> fst (reload_settings sample_env (Inr sample_settings)
             (sample_plugin\<lparr>broker := Some (sample_broker\<lparr>error := Some ''timeout''\<rparr>)\<rparr>)) = None
   \<and> calls (snd (reload_settings sample_env (Inr sample_settings)
                    (sample_plugin\<lparr>broker := Some (sample_broker\<lparr>error := Some ''timeout''\<rparr>)\<rparr>)))
       = []
   \<and> broker (snd (reload_settings sample_env (Inr sample_settings)
                     (sample_plugin\<lparr>broker := Some (sample_broker\<lparr>error := Some ''timeout''\<rparr>)\<rparr>)))
       = Some \<lparr>default_cur_in = Some ''USD'', default_curs_out = Some [''EUR'', ''JPY''],
                update_freq = Some (Freq ''daily''), expensive_service = Some \<lparr>app_id = ''key''\<rparr>,
                aliases = [(''EURO'', ''EUR'')], error = None,
                last_update = ''2024-01-01T00:00:00'',
                rates = [(''USD'', 1), (''EUR'', 9 / 10), (''JPY'', 150)]\<rparr>"
proof -
  let ?b = "sample_broker\<lparr>error := Some ''timeout''\<rparr>"
  let ?s = "sample_plugin\<lparr>broker := Some ?b\<rparr>"
  have a: "broker ?s = Some ?b" by simp
  have b: "update_freq ?b = Some (Freq ''daily'')" by (simp add: sample_broker_def)
  have c: "cache_path sample_env = Inr ''cache''" by (simp add: sample_env_def)
  have f: "UpdateFreq sample_env (update_freq_setting sample_settings) = Inr (Freq ''daily'')"
    by code_simp
  have u: "fst (read_update_freq sample_env (?s\<lparr>settings := sample_settings\<rparr>)) = None"
    by (simp add: read_update_freq_def f)
  have k: "app_id_setting sample_settings = ''key''"
    by code_simp
  have i: "map_option py_strip (input_cur_setting sample_settings (Some ''USD'')) = Some ''USD''"
    "map_option py_strip (input_cur_setting sample_settings None) = Some ''USD''"
    by code_simp+
  have out: "output_cur_setting sample_settings = ''EUR JPY''"
    "py_join '' '' [''EUR'', ''JPY''] = ''EUR JPY''"
    by code_simp+
  have al: "build_aliases sample_env (aliases_setting sample_settings) = [(''EURO'', ''EUR'')]"
    by code_simp
  have cs: "calls ?s = []" by (simp add: sample_plugin_def)
  have r: "fst (reload_body sample_env (Inr sample_settings) ?s) = None"
    "calls (snd (reload_settings sample_env (Inr sample_settings) ?s)) = calls ?s"
    "broker (snd (reload_settings sample_env (Inr sample_settings) ?s))
       = Some (?b\<lparr>aliases := build_aliases sample_env (aliases_setting sample_settings),
                   error := None\<rparr>)"
    by (rule reload_unchanged[OF a b c u, of "''USD''" "[''EUR'', ''JPY'']"];
        simp add: f k i out sample_broker_def)+
  have r0: "fst (reload_settings sample_env (Inr sample_settings) ?s) = None"
    by (simp add: reload_settings_None[OF r(1)])
  show ?thesis
    by (simp add: r0 r(2,3) al cs f k i out) (simp add: sample_broker_def)
qed

subsection \<open>C4: an exception that leaves \<open>query\<close>\<close>

text \<open>
  Claim C4 does not hold of \<open>query\<close>. On a plugin without a broker (its first
  initialisation failed) the query "100" raises AttributeError inside the \<open>try\<close>, the
  handler of line 56 adds the "Error" item, and the update-status item after the \<open>try\<close>
  statement reads \<open>self.broker.last_update\<close>: the AttributeError it raises leaves
  \<open>query\<close>.
\<close>

theorem query_without_broker_raises:
  "fst (query sample_env bare_plugin ''100'') = Some (AttributeError ''last_update'')
   \<and> items (snd (query sample_env bare_plugin ''100''))
       = [Item ''Error'' ''An error occurred: default_cur_in'' None NoAction None False]"
proof -
  let ?s0 = "logger Debug ''Processing query: {user_input}'' bare_plugin"
  have p: "fst (parse_and_merge_input sample_env ?s0 ''100'' True)
             = Inl (AttributeError ''default_cur_in'')"
    by (simp add: pami_fst sample_strip sample_env_def sample_float_def bare_plugin_def logger_def)
  obtain r1 s1 where e: "parse_and_merge_input sample_env ?s0 ''100'' True = (r1, s1)"
    by (cases "parse_and_merge_input sample_env ?s0 ''100'' True")
  have r1: "r1 = Inl (AttributeError ''default_cur_in'')" using p e by simp
  have s1: "broker s1 = None" "items s1 = []"
    using pami_snd_fields[of sample_env ?s0 "''100''" True] e
    by (simp_all add: logger_def bare_plugin_def)
  have body: "query_body sample_env ?s0 ''100'' = (Raised (AttributeError ''default_cur_in''), s1)"
    by (simp add: query_body_def e r1)
  show ?thesis
    unfolding query_def body
    by (simp add: update_status_def add_item_def logger_def s1)
qed

text \<open>The other half of the claim holds: no exception leaves \<open>reload_settings\<close>, whatever
  the collaborators, the settings and the plugin are.\<close>

theorem reload_settings_returns: "fst (reload_settings E reloaded s) = None"
  by (simp add: reload_settings_def Let_def split: prod.splits option.splits)

subsection \<open>C5: input the parser rejects\<close>

text \<open>
  Claim C5. For every input that is not blank, that \<open>float\<close> rejects and that the parser
  rejects with ParseError, the call \<open>_parse_and_merge_input(user_input, True)\<close>, the one
  \<open>query\<close> makes for such input, returns the template request, every field \<open>None\<close>;
  ParseError does not leave it. \<open>query\<close> then returns at line 26 without an exception:
  the call of line 29 is not made, no item is added and the broker is not called. The
  log gains the entry of line 21 and, when there is no broker, the entry of line 140
  once.
\<close>

theorem parse_error_returns_template:
  assumes "py_strip u \<noteq> []" and "py_float E (py_strip u) = None"
    and "parser s = Some p" and "parse E p (py_strip u) = Inl (ParseError m)"
  shows "fst (parse_and_merge_input E s u True)
           = Inr \<lparr>sources = PyNone, destinations = PyNone, extra = PyNone\<rparr>
       \<and> fst (query E s u) = None
       \<and> items (snd (query E s u)) = items s
       \<and> calls (snd (query E s u)) = calls s
       \<and> broker (snd (query E s u)) = broker s
       \<and> logged (snd (query E s u))
           = logged s @ (Debug, ''Processing query: {user_input}'')
               # (if broker s = None then [(Error, ''Error creating base query: {e}'')] else [])"
proof -
  from assms(1) have ne: "u \<noteq> []" by (auto simp: py_strip_Nil)
  have g: "fst (parse_and_merge_input E s u True) = Inr template_request"
    using assms ne by (simp add: pami_fst base_query_template)
  let ?s0 = "logger Debug ''Processing query: {user_input}'' s"
  obtain r1 s1 where e: "parse_and_merge_input E ?s0 u True = (r1, s1)"
    by (cases "parse_and_merge_input E ?s0 u True")
  have "fst (parse_and_merge_input E ?s0 u True) = Inr template_request"
    by (simp only: pami_fst_logger g)
  then have r1: "r1 = Inr template_request"
    by (simp add: e)
  have "s1 = snd (base_query ?s0 True)"
    using pami_snd[of E ?s0 u True] e by simp
  then have s1: "items s1 = items s" "calls s1 = calls s" "broker s1 = broker s"
    "logged s1 = logged s @ (Debug, ''Processing query: {user_input}'')
                   # (if broker s = None then [(Error, ''Error creating base query: {e}'')] else [])"
    by (simp_all add: base_query_def logger_def Let_def split: option.splits)
  have q: "query E s u = (None, s1)"
    by (simp add: query_def query_body_def e r1 is_direct_request_def template_request_def)
  show ?thesis
    using g by (simp add: q s1 template_request_def)
qed

theorem parse_error_returns_template_witness:
  "fst (parse_and_merge_input sample_env sample_plugin ''to to to'' True)
     = Inr \<lparr>sources = PyNone, destinations = PyNone, extra = PyNone\<rparr>
   \<and> fst (query sample_env sample_plugin ''to to to'') = None
   \<and> items (snd (query sample_env sample_plugin ''to to to'')) = []
   \<and> calls (snd (query sample_env sample_plugin ''to to to'')) = []
   \<and> logged (snd (query sample_env sample_plugin ''to to to''))
       = [(Debug, ''Processing query: {user_input}'')]"
proof -
  have a: "py_strip ''to to to'' \<noteq> []" by (simp add: sample_strip)
  have b: "py_float sample_env (py_strip ''to to to'') = None"
    by (simp add: sample_strip sample_env_def sample_float_def)
  have c: "parser sample_plugin = Some sample_props" by (simp add: sample_plugin_def)
  have d: "parse sample_env sample_props (py_strip ''to to to'') = Inl (ParseError ''expected a currency'')"
    by (simp add: sample_strip sample_env_def sample_parse_def)
  show ?thesis
    using parse_error_returns_template[OF a b c d]
    by (simp add: sample_plugin_def)
qed

text \<open>What the claim calls the template is \<open>base_query\<close>, which line 176 returns. Called
  with \<open>empty=False\<close>, as no call in currencypp.py does for input the parser rejects, the
  function returns it filled from the defaults.\<close>

lemma parse_error_filled_base_query:
  assumes "py_strip u \<noteq> []" and "py_float E (py_strip u) = None"
    and "parser s = Some p" and "parse E p (py_strip u) = Inl (ParseError m)"
    and "broker s = Some b" and "default_curs_out b = Some outs"
  shows "fst (parse_and_merge_input E s u False)
           = Inr \<lparr>sources = Val [\<lparr>currency = default_cur_in b, amount = Some (Finite 1)\<rparr>],
                  destinations = Val (map (\<lambda>cur. \<lparr>currency = Some cur, amount = None\<rparr>) outs),
                  extra = PyNone\<rparr>"
proof -
  from assms(1) have ne: "u \<noteq> []" by (auto simp: py_strip_Nil)
  show ?thesis
    using assms ne
    by (simp add: pami_fst base_query_def filled_request_def source_entry_def dest_entry_def)
qed

subsection \<open>C6: the numeric fast path\<close>

text \<open>
  Claim C6. With a broker that holds a default destination list, every input that
  \<open>float\<close> accepts as the number \<open>a\<close> makes \<open>_parse_and_merge_input\<close> return the request
  whose sources are the default source currency with amount \<open>a\<close> and whose destinations
  are the default destinations in order. The grammar parser is not consulted: the result
  is the same whatever \<open>parse\<close> does and whatever the \<open>parser\<close> attribute holds.
  (\<open>float('')\<close> raises ValueError.)
\<close>

theorem numeric_fast_path:
  assumes "broker s = Some b" and "default_curs_out b = Some outs"
    and "py_float E [] = None" and "py_float E (py_strip u) = Some a"
  shows "fst (parse_and_merge_input (E\<lparr>parse := any_parse\<rparr>) (s\<lparr>parser := any_parser\<rparr>) u empty_flag)
         = Inr \<lparr>sources = Val [\<lparr>currency = default_cur_in b, amount = Some a\<rparr>],
                destinations = Val (map (\<lambda>cur. \<lparr>currency = Some cur, amount = None\<rparr>) outs),
                extra = PyNone\<rparr>"
proof -
  from assms(3,4) have ne: "py_strip u \<noteq> []" by auto
  then have "u \<noteq> []" by (auto simp: py_strip_Nil)
  with ne assms show ?thesis
    by (simp add: pami_fst filled_request_def source_entry_def dest_entry_def)
qed

theorem numeric_fast_path_witness:
  "fst (parse_and_merge_input (sample_env\<lparr>parse := \<lambda>p t. Inl (OtherException ''not called'')\<rparr>)
          (sample_plugin\<lparr>parser := None\<rparr>) '' 100 '' False)
     = Inr \<lparr>sources = Val [\<lparr>currency = Some ''USD'', amount = Some (Finite 100)\<rparr>],
            destinations = Val [\<lparr>currency = Some ''EUR'', amount = None\<rparr>,
                                \<lparr>currency = Some ''JPY'', amount = None\<rparr>],
            extra = PyNone\<rparr>"
proof -
  have a: "broker sample_plugin = Some sample_broker" by (simp add: sample_plugin_def)
  have b: "default_curs_out sample_broker = Some [''EUR'', ''JPY'']" by (simp add: sample_broker_def)
  have c: "py_float sample_env [] = None" by (simp add: sample_env_def sample_float_def)
  have d: "py_float sample_env (py_strip '' 100 '') = Some (Finite 100)"
    by (simp add: sample_strip sample_env_def sample_float_def)
  show ?thesis
    using numeric_fast_path[OF a b c d, of "\<lambda>p t. Inl (OtherException ''not called'')" None False]
    by (simp add: sample_broker_def)
qed

subsection \<open>C7: defaults fill what the parser left out\<close>



subsection \<open>C8: aliases are cleared and rebuilt\<close>

text \<open>
  Claim C8, as amended. Every call of \<open>_read_config\<close> that reaches line 369 (the broker
  block of lines 214-261 raised nothing, and no exception left the blocks of the default
  currencies) clears the alias mapping and rebuilds it from the text of the \<open>aliases\<close>
  setting: the broker it leaves holds the mapping built line by line from the empty
  mapping. So two such calls with the same aliases text leave equal alias mappings,
  whatever the mappings were before, and no stale entry survives.
\<close>

theorem aliases_rebuilt:
  assumes "fst (read_config_defaults E s) = Completed"
    and "fst (read_config_defaults E s') = Completed"
    and "aliases_setting (settings s') = aliases_setting (settings s)"
  shows "\<exists>b b'. broker (snd (read_config E s)) = Some b
              \<and> broker (snd (read_config E s')) = Some b'
              \<and> aliases b = fold (alias_line E) (py_splitlines (aliases_setting (settings s))) []
              \<and> aliases b' = aliases b"
proof -
  have r: "\<exists>b. broker (snd (read_config E t)) = Some b
               \<and> aliases b = fold (alias_line E) (py_splitlines (aliases_setting (settings t))) []"
    if c: "fst (read_config_defaults E t) = Completed" for t
  proof -
    obtain b4 where b4: "broker (snd (read_config_defaults E t)) = Some b4"
      using read_config_defaults_Completed[OF c] by auto
    show ?thesis
      by (simp add: read_config_Completed[OF c] read_config_rest_broker[OF b4]
          read_config_defaults_frame build_aliases_def)
  qed
  from r[OF assms(1)] r[OF assms(2)] assms(3) show ?thesis
    by auto
qed

theorem aliases_rebuilt_witness:
  "map_option aliases
     (broker (snd (read_config sample_env
                     (sample_plugin\<lparr>settings := Map.empty(''aliases'' \<mapsto> Str ''usd = buck'')\<rparr>))))
     = Some [(''BUCK'', ''USD'')]
   \<and> map_option aliases
       (broker (snd (read_config sample_env
                       (snd (read_config sample_env
                               (sample_plugin\<lparr>settings := Map.empty(''aliases'' \<mapsto> Str ''usd = buck'')\<rparr>))))))
     = Some [(''BUCK'', ''USD'')]"
proof -
  let ?s = "sample_plugin\<lparr>settings := Map.empty(''aliases'' \<mapsto> Str ''usd = buck'')\<rparr>"
  have a: "fst (read_config_defaults sample_env ?s) = Completed"
    by code_simp
  have b: "fst (read_config_defaults sample_env (snd (read_config sample_env ?s))) = Completed"
    by code_simp
  have c: "aliases_setting (settings (snd (read_config sample_env ?s))) = aliases_setting (settings ?s)"
    by (simp add: read_config_Completed[OF a] read_config_rest_frame read_config_defaults_frame)
  have d: "fold (alias_line sample_env)
             (py_splitlines (aliases_setting (Map.empty(''aliases'' \<mapsto> Str ''usd = buck'')))) []
             = [(''BUCK'', ''USD'')]"
    by code_simp
  show ?thesis
    using aliases_rebuilt[OF a b c] by (auto simp: d)
qed

text \<open>The claim as stated fails for a call that returns at line 261. With a cache
  directory that cannot be created, \<open>_read_config\<close> returns before line 251: the broker
  keeps the stale alias EURO, and the alias of the settings text is not added. A reload
  then leaves the same.\<close>

theorem aliases_stale_counterexample:
  "aliases sample_broker = [(''EURO'', ''EUR'')]
   \<and> fold (alias_line (sample_env\<lparr>cache_path := Inl (OtherException ''mkdir failed'')\<rparr>))
        (py_splitlines ''usd = buck'') []
       = [(''BUCK'', ''USD'')]
   \<and> fst (read_config (sample_env\<lparr>cache_path := Inl (OtherException ''mkdir failed'')\<rparr>)
             (sample_plugin\<lparr>settings := Map.empty(''aliases'' \<mapsto> Str ''usd = buck'')\<rparr>))
       = None
   \<and> map_option aliases
       (broker (snd (read_config (sample_env\<lparr>cache_path := Inl (OtherException ''mkdir failed'')\<rparr>)
                       (sample_plugin\<lparr>settings := Map.empty(''aliases'' \<mapsto> Str ''usd = buck'')\<rparr>))))
       = Some [(''EURO'', ''EUR'')]
   \<and> map_option aliases
       (broker (snd (reload_settings
                       (sample_env\<lparr>cache_path := Inl (OtherException ''mkdir failed'')\<rparr>)
                       (Inr (Map.empty(''aliases'' \<mapsto> Str ''usd = buck''))) sample_plugin)))
       = Some [(''EURO'', ''EUR'')]"
  by code_simp

subsection \<open>C9: the parser's fallback chain\<close>

text \<open>
  Claim C9. Whenever \<open>_read_config\<close> reaches the parser block (it neither returned at line
  261 nor raised before line 369), it returns normally, and with \<open>b\<close> the broker it
  leaves: the parser is the result of the first of three constructions that succeeds,
  from \<open>ParserProperties()\<close> with the broker's default currencies, the separator keywords
  of the settings and the broker's aliases; from \<open>ParserProperties()\<close> with the
  default currencies only; from \<open>ParserProperties()\<close> as it is. The log ends with the
  entries of the tiers tried, which name the tier used, and the three closing lines.
  When all three constructions fail the parser is \<open>None\<close> and two critical entries are
  logged.
\<close>

theorem parser_fallback_chain:
  assumes "fst (read_config_defaults E s) = Completed"
  shows "\<exists>b. fst (read_config E s) = None
           \<and> broker (snd (read_config E s)) = Some b
           \<and> (let minimal = (ParserProperties E)
                               \<lparr>pp_default_cur_in := default_cur_in b,
                                pp_default_curs_out := default_curs_out b\<rparr>;
                   full = minimal
                            \<lparr>to_keywords :=
                               read_separators s ''separators'' ''to in :'' [''to'', ''in'', '':''],
                             sep_keywords :=
                               read_separators s ''destination_separators'' ''and & ,''
                                 [''and'', ''&'', '',''],
                             pp_aliases := aliases b\<rparr>;
                   before = logged (snd (read_config_defaults E s));
                   closing = [(Info, ''Plugin configured with input currency: {}''),
                              (Info, ''Plugin configured with output currencies: {}''),
                              (Info, ''Plugin configured with {} aliases'')]
               in case make_parser E full of
                    Inr p \<Rightarrow>
                      parser (snd (read_config E s)) = Some p
                      \<and> logged (snd (read_config E s))
                          = before
                            @ [(Info, ''Parser initialized successfully with full configuration'')]
                            @ closing
                  | Inl e1 \<Rightarrow>
                      (case make_parser E minimal of
                         Inr p \<Rightarrow>
                           parser (snd (read_config E s)) = Some p
                           \<and> logged (snd (read_config E s))
                               = before
                                 @ [(Error, ''Full parser initialization failed: {}''),
                                    (Warning,
                                     ''Parser initialized with minimal configuration (currencies only)'')]
                                 @ closing
                       | Inl e2 \<Rightarrow>
                           (case make_parser E (ParserProperties E) of
                              Inr p \<Rightarrow>
                                parser (snd (read_config E s)) = Some p
                                \<and> logged (snd (read_config E s))
                                    = before
                                      @ [(Error, ''Full parser initialization failed: {}''),
                                         (Error, ''Minimal parser initialization failed: {}''),
                                         (Warning,
                                          ''Parser initialized with ultimate fallback configuration'')]
                                      @ closing
                            | Inl e3 \<Rightarrow>
                                parser (snd (read_config E s)) = None
                                \<and> logged (snd (read_config E s))
                                    = before
                                      @ [(Error, ''Full parser initialization failed: {}''),
                                         (Error, ''Minimal parser initialization failed: {}''),
                                         (Critical, ''All parser initialization attempts failed''),
                                         (Critical,
                                          ''Parser initialization completely failed - plugin may not function correctly'')]
                                      @ closing)))"
proof -
  let ?s4 = "snd (read_config_defaults E s)"
  let ?s5 = "read_config_aliases E ?s4"
  obtain b4 where b4: "broker ?s4 = Some b4"
    using read_config_defaults_Completed[OF assms] by auto
  let ?b = "b4\<lparr>aliases := build_aliases E (aliases_setting (settings ?s4))\<rparr>"
  have b5: "broker ?s5 = Some ?b"
    by (rule read_config_aliases_broker[OF b4])
  have l5: "logged ?s5 = logged ?s4"
    by (rule read_config_aliases_logged[OF b4])
  have seps: "read_separators ?s4 k d f = read_separators s k d f" for k d f
    by (rule read_separators_cong) (simp add: read_config_defaults_frame)
  have rc: "read_config E s = (None, read_config_rest E ?s4)"
    by (rule read_config_Completed[OF assms])
  have br: "broker (read_config_rest E ?s4) = Some ?b"
    by (rule read_config_rest_broker[OF b4])
  show ?thesis
    apply (intro exI[of _ ?b])
    apply (simp only: rc fst_conv snd_conv br)
    apply (simp add: read_config_rest_def read_config_summary_def read_config_parser_def
        full_props_def props_with_currencies_def b5 l5 seps logger_def Let_def
        split: sum.splits)
    done
qed

theorem parser_fallback_chain_witness:
  "parser (snd (read_config (sample_env\<lparr>make_parser := \<lambda>p. Inl (ValueError ''no grammar'')\<rparr>)
                   sample_plugin)) = None
   \<and> fst (read_config (sample_env\<lparr>make_parser := \<lambda>p. Inl (ValueError ''no grammar'')\<rparr>)
             sample_plugin) = None
   \<and> (Critical, ''All parser initialization attempts failed'')
       \<in> set (logged (snd (read_config
                             (sample_env\<lparr>make_parser := \<lambda>p. Inl (ValueError ''no grammar'')\<rparr>)
                             sample_plugin)))
   \<and> (\<exists>p. parser (snd (read_config
                          (sample_env\<lparr>make_parser :=
                              \<lambda>p. if to_keywords p = [''into''] then Inl (ValueError ''keyword'')
                                  else Inr p\<rparr>)
                          (sample_plugin\<lparr>settings := Map.empty(''separators'' \<mapsto> Str ''into'')\<rparr>)))
            = Some p
          \<and> to_keywords p = [''to'', ''in'', '':''] \<and> pp_aliases p = [])
   \<and> (Warning, ''Parser initialized with minimal configuration (currencies only)'')
       \<in> set (logged (snd (read_config
                          (sample_env\<lparr>make_parser :=
                              \<lambda>p. if to_keywords p = [''into''] then Inl (ValueError ''keyword'')
                                  else Inr p\<rparr>)
                          (sample_plugin\<lparr>settings := Map.empty(''separators'' \<mapsto> Str ''into'')\<rparr>))))"
proof -
  let ?E0 = "sample_env\<lparr>make_parser := \<lambda>p. Inl (ValueError ''no grammar'')\<rparr>"
  let ?E1 = "sample_env\<lparr>make_parser :=
                \<lambda>p. if to_keywords p = [''into''] then Inl (ValueError ''keyword'') else Inr p\<rparr>"
  let ?s1 = "sample_plugin\<lparr>settings := Map.empty(''separators'' \<mapsto> Str ''into'')\<rparr>"
  have a: "fst (read_config_defaults ?E0 sample_plugin) = Completed"
    by code_simp
  have b: "fst (read_config_defaults ?E1 ?s1) = Completed"
    by code_simp
  have c: "read_separators ?s1 ''separators'' ''to in :'' [''to'', ''in'', '':''] = [''into'']"
    by code_simp
  have d: "ParserProperties ?E1 = sample_props" "ParserProperties ?E0 = sample_props"
    by (simp_all add: sample_env_def)
  show ?thesis
    using parser_fallback_chain[OF a] parser_fallback_chain[OF b]
    by (auto simp: Let_def c d sample_props_def)
qed

subsection \<open>C10: a float literal is always a direct request\<close>

text \<open>
  Claim C10. With a broker that holds a default destination list, every input that
  \<open>float\<close> accepts as the value \<open>a\<close> takes the numeric fast path also when
  \<open>_parse_and_merge_input\<close> is called with \<open>empty=True\<close>: the flag is ignored, the result is
  the request whose one source is the default source currency with the amount \<open>a\<close> and
  whose destinations are the default destinations, and \<open>_is_direct_request\<close> holds of it.
  The value may be a NaN or an infinity: nothing is asked of it.
\<close>

theorem float_input_is_direct:
  assumes "broker s = Some b" and "default_curs_out b = Some outs"
    and "py_float E [] = None" and "py_float E (py_strip u) = Some a"
  shows "fst (parse_and_merge_input E s u True)
           = Inr \<lparr>sources = Val [\<lparr>currency = default_cur_in b, amount = Some a\<rparr>],
                  destinations = Val (map (\<lambda>cur. \<lparr>currency = Some cur, amount = None\<rparr>) outs),
                  extra = PyNone\<rparr>
       \<and> fst (parse_and_merge_input E s u False) = fst (parse_and_merge_input E s u True)
       \<and> is_direct_request
            \<lparr>sources = Val [\<lparr>currency = default_cur_in b, amount = Some a\<rparr>],
             destinations = Val (map (\<lambda>cur. \<lparr>currency = Some cur, amount = None\<rparr>) outs),
             extra = PyNone\<rparr>
           = Inr True"
proof -
  from assms(3,4) have ne: "py_strip u \<noteq> []" by auto
  then have "u \<noteq> []" by (auto simp: py_strip_Nil)
  with ne assms show ?thesis
    by (simp add: pami_fst filled_request_def source_entry_def dest_entry_def is_direct_request_def)
qed

theorem float_input_is_direct_witness:
  "fst (parse_and_merge_input sample_env sample_plugin ''nan'' True)
     = Inr \<lparr>sources = Val [\<lparr>currency = Some ''USD'', amount = Some NaN\<rparr>],
            destinations = Val [\<lparr>currency = Some ''EUR'', amount = None\<rparr>,
                                \<lparr>currency = Some ''JPY'', amount = None\<rparr>],
            extra = PyNone\<rparr>
   \<and> fst (parse_and_merge_input sample_env sample_plugin ''nan'' False)
     = fst (parse_and_merge_input sample_env sample_plugin ''nan'' True)
   \<and> is_direct_request
        \<lparr>sources = Val [\<lparr>currency = Some ''USD'', amount = Some NaN\<rparr>],
         destinations = Val [\<lparr>currency = Some ''EUR'', amount = None\<rparr>,
                             \<lparr>currency = Some ''JPY'', amount = None\<rparr>],
         extra = PyNone\<rparr>
       = Inr True"
proof -
  have a: "broker sample_plugin = Some sample_broker" by (simp add: sample_plugin_def)
  have b: "default_curs_out sample_broker = Some [''EUR'', ''JPY'']" by (simp add: sample_broker_def)
  have c: "py_float sample_env [] = None" by (simp add: sample_env_def sample_float_def)
  have d: "py_float sample_env (py_strip ''nan'') = Some NaN"
    by (simp add: sample_strip sample_env_def sample_float_def)
  show ?thesis
    using float_input_is_direct[OF a b c d]
    by (auto simp: sample_broker_def)
qed

end
